theory Spec2Isabelle
  imports Complex_Main
begin

section \<open>Conventions of the embedding\<close>

text \<open>
  This theory embeds \<^verbatim>\<open>mjpc/tasks/humanoid/skateboard/pushing.cc\<close>.
  A \<^verbatim>\<open>double\<close> (\<^verbatim>\<open>mjtNum\<close>) is a \<^typ>\<open>real\<close>: rounding, infinities and NaN are
  outside the model. An \<^verbatim>\<open>int\<close> is an \<^typ>\<open>int\<close>; where an operation on in-range
  arguments can leave the 32-bit range the two's-complement wrap-around is written out
  (\<open>wrap_int\<close>). A C array is a list; every read and write through a pointer is
  bounds-checked in the model and an access outside the array is the error \<open>Fault\<close>.
\<close>

datatype error =
    Fatal string   \<comment> \<open>\<^verbatim>\<open>mju_error\<close>: the process is terminated with this message\<close>
  | AssertFail     \<comment> \<open>a failed \<^verbatim>\<open>assert\<close>\<close>
  | Fault          \<comment> \<open>undefined behaviour: access outside an array, null pointer, uncaught exception\<close>

definition bnd :: "error + 'a \<Rightarrow> ('a \<Rightarrow> error + 'b) \<Rightarrow> error + 'b" where
  "bnd x f = (case x of Inl e \<Rightarrow> Inl e | Inr v \<Rightarrow> f v)"

definition rd :: "'a list \<Rightarrow> int \<Rightarrow> error + 'a" where
  \<comment> \<open>\<^verbatim>\<open>p[i]\<close> for an array \<^verbatim>\<open>p\<close>\<close>
  "rd xs i = (if 0 \<le> i \<and> i < int (length xs) then Inr (xs ! nat i) else Inl Fault)"

definition rdn :: "'a list \<Rightarrow> int \<Rightarrow> int \<Rightarrow> error + 'a list" where
  \<comment> \<open>the \<open>n\<close> elements \<^verbatim>\<open>p[off]\<close>, ..., \<^verbatim>\<open>p[off + n - 1]\<close>; nothing is read when \<open>n \<le> 0\<close>\<close>
  "rdn xs off n =
     (if n \<le> 0 then Inr []
      else if 0 \<le> off \<and> off + n \<le> int (length xs)
      then Inr (take (nat n) (drop (nat off) xs))
      else Inl Fault)"

definition wrn :: "'a list \<Rightarrow> int \<Rightarrow> 'a list \<Rightarrow> error + 'a list" where
  \<comment> \<open>store the elements of \<open>src\<close> at \<^verbatim>\<open>p[off]\<close>, \<^verbatim>\<open>p[off + 1]\<close>, ...\<close>
  "wrn xs off src =
     (if src = [] then Inr xs
      else if 0 \<le> off \<and> off + int (length src) \<le> int (length xs)
      then Inr (take (nat off) xs @ src @ drop (nat off + length src) xs)
      else Inl Fault)"

definition mju_copy :: "real list \<Rightarrow> int \<Rightarrow> real list \<Rightarrow> int \<Rightarrow> int \<Rightarrow> error + real list" where
  \<comment> \<open>\<^verbatim>\<open>mju_copy(dst + doff, src + soff, n)\<close>; the result is the array \<open>dst\<close> afterwards\<close>
  "mju_copy dst doff src soff n = bnd (rdn src soff n) (\<lambda>v. wrn dst doff v)"

definition wrap_int :: "int \<Rightarrow> int" where
  \<comment> \<open>the value of a 32-bit two's-complement \<^verbatim>\<open>int\<close> holding \<open>x\<close>\<close>
  "wrap_int x = (x + 2 ^ 31) mod 2 ^ 32 - 2 ^ 31"

definition INT_MAX :: int where
  "INT_MAX = 2147483647"

section \<open>Keyframe interpolation and the motion table\<close>

definition clamp :: "real \<Rightarrow> real \<Rightarrow> real \<Rightarrow> real" where
  \<comment> \<open>\<^verbatim>\<open>std::clamp(v, lo, hi)\<close>\<close>
  "clamp v lo hi = (if v < lo then lo else if hi < v then hi else v)"

definition ComputeInterpolationValues :: "real \<Rightarrow> int \<Rightarrow> int \<times> int \<times> real \<times> real" where
  "ComputeInterpolationValues index max_index =
     (let index_0 = \<lfloor>clamp index 0 (real_of_int max_index)\<rfloor>;
          index_1 = min (wrap_int (index_0 + 1)) max_index;
          weight_1 = clamp index 0 (real_of_int max_index) - real_of_int index_0;
          weight_0 = 1 - weight_1
      in (index_0, index_1, weight_0, weight_1))"

definition kFps :: real where
  "kFps = 30"

definition kMotionLengths :: "int list" where
  "kMotionLengths = [1]"

definition MotionLength :: "int \<Rightarrow> error + int" where
  "MotionLength mid = rd kMotionLengths mid"

function MotionStartIndex_loop :: "int \<Rightarrow> int \<Rightarrow> int \<Rightarrow> error + int" where
  "MotionStartIndex_loop mid i start =
     (if i < mid
      then (case MotionLength i of
              Inl e \<Rightarrow> Inl e
            | Inr l \<Rightarrow> MotionStartIndex_loop mid (i + 1) (start + l))
      else Inr start)"
  by pat_completeness auto
termination
  by (relation "measure (\<lambda>(mid, i, start). nat (mid - i))") auto

definition MotionStartIndex :: "int \<Rightarrow> error + int" where
  "MotionStartIndex mid = MotionStartIndex_loop mid 0 0"

section \<open>The MuJoCo model and data\<close>

datatype mjtObj = mjOBJ_BODY | mjOBJ_XBODY | mjOBJ_GEOM

text \<open>
  The fields of \<^verbatim>\<open>mjModel\<close> that the file reads. Name resolution is MuJoCo's:
  \<open>mj_name2id\<close> gives \<open>-1\<close> for a name the model does not have, \<open>mj_id2name\<close> gives
  \<^verbatim>\<open>NULL\<close> (here \<open>None\<close>) for an id outside the model or an object without a name.
  The last three fields are what the helpers of \<^verbatim>\<open>mjpc/utilities\<close> look up in the model.
\<close>

record mjModel =
  nq :: int
  nv :: int
  nu :: int
  nmocap :: int
  body_mocapid :: "int list"
  key_qpos :: "real list"
  key_qvel :: "real list"
  key_mpos :: "real list"
  mj_name2id :: "mjtObj \<Rightarrow> string \<Rightarrow> int"
  mj_id2name :: "mjtObj \<Rightarrow> int \<Rightarrow> string option"
  parameter_index :: "string \<Rightarrow> int option"
  sensor_adr :: "string \<Rightarrow> int option"
  user_sensor_dim :: int

text \<open>
  One entry of \<^verbatim>\<open>mjData::contact\<close>. \<open>decoded_force\<close> stands for the six numbers that
  MuJoCo's \<^verbatim>\<open>mj_contactForce\<close> extracts from the constraint forces of an active contact.
\<close>

record mjContact =
  geom1 :: int
  geom2 :: int
  efc_address :: int
  decoded_force :: "real list"

record mjData =
  time :: real
  qpos :: "real list"
  qvel :: "real list"
  ctrl :: "real list"
  xpos :: "real list"
  xmat :: "real list"
  mocap_pos :: "real list"
  sensordata :: "real list"
  ncon :: int
  contact :: "mjContact list"

subsection \<open>MuJoCo's vector utilities\<close>

definition mjMINVAL :: real where
  "mjMINVAL = 1 / 10 ^ 15"

definition mju_sub3 :: "real list \<Rightarrow> real list \<Rightarrow> real list" where
  "mju_sub3 a b = [a ! 0 - b ! 0, a ! 1 - b ! 1, a ! 2 - b ! 2]"

definition mju_norm2 :: "real list \<Rightarrow> real" where
  \<comment> \<open>\<^verbatim>\<open>mju_norm(v, 2)\<close>: the length of the first two components\<close>
  "mju_norm2 v = sqrt (v ! 0 * v ! 0 + v ! 1 * v ! 1)"

definition mju_normalize2 :: "real list \<Rightarrow> real list" where
  \<comment> \<open>\<^verbatim>\<open>mju_normalize(v, 2)\<close>: a vector shorter than \<open>mjMINVAL\<close> becomes \<open>(1, 0)\<close>\<close>
  "mju_normalize2 v =
     (let norm = mju_norm2 v
      in if norm < mjMINVAL then [1, 0]
         else [v ! 0 * (1 / norm), v ! 1 * (1 / norm)])"

section \<open>The goal controller\<close>

text \<open>
  \<open>left_or_right\<close> is the value of the one Bernoulli draw that \<^verbatim>\<open>move_goal\<close> makes
  from a freshly seeded generator when it relocates the goal. The result is the
  \<^verbatim>\<open>mjData\<close> after the call.
\<close>

definition new_goal_position :: "real list \<Rightarrow> real list \<Rightarrow> real list \<Rightarrow> bool \<Rightarrow> real list" where
  \<comment> \<open>the body of the relocation branch, from the skateboard heading to \<^verbatim>\<open>new_goal_position\<close>\<close>
  "new_goal_position skateboard_position skateboard_xmat goal_position left_or_right =
     (let skateboard_heading = [skateboard_xmat ! 0, skateboard_xmat ! 3];
          goal_offset_xy = mju_normalize2 skateboard_heading;
          goal_move_distance_forward = 8.0;
          goal_move_distance_side = 2.0;
          goal_offset_forward =
            [goal_offset_xy ! 0 * goal_move_distance_forward,
             goal_offset_xy ! 1 * goal_move_distance_forward];
          goal_offset_perpendicular =
            (if left_or_right
             then [- (goal_offset_xy ! 1) * goal_move_distance_side,
                   goal_offset_xy ! 0 * goal_move_distance_side]
             else [goal_offset_xy ! 1 * goal_move_distance_side,
                   - (goal_offset_xy ! 0) * goal_move_distance_side]);
          goal_offset =
            [goal_offset_forward ! 0 + goal_offset_perpendicular ! 0,
             goal_offset_forward ! 1 + goal_offset_perpendicular ! 1,
             0]
      in [skateboard_position ! 0 + goal_offset ! 0,
          skateboard_position ! 1 + goal_offset ! 1,
          goal_position ! 2])"

definition move_goal :: "mjModel \<Rightarrow> mjData \<Rightarrow> bool \<Rightarrow> error + mjData" where
  "move_goal model d left_or_right =
     (let goal_body_id = mj_name2id model mjOBJ_XBODY ''goal'' in
      if goal_body_id < 0 then Inl (Fatal ''body 'goal' not found'') else
      bnd (rd (body_mocapid model) goal_body_id) (\<lambda>goal_mocapid.
      if goal_mocapid < 0 then Inl (Fatal ''mocap 'goal' not found'') else
      bnd (rdn (mocap_pos d) (3 * goal_mocapid) 3) (\<lambda>goal_position.
      let skateboard_body_id = mj_name2id model mjOBJ_XBODY ''skateboard'' in
      bnd (rdn (xpos d) (3 * skateboard_body_id) 3) (\<lambda>skateboard_position.
      let skateboard_goal_error = mju_sub3 goal_position skateboard_position;
          skateboard_goal_distance = mju_norm2 skateboard_goal_error;
          goal_switch_threshold_m = 0.5
      in if skateboard_goal_distance < goal_switch_threshold_m then
           bnd (rdn (xmat d) (9 * skateboard_body_id) 9) (\<lambda>skateboard_xmat.
           bnd (wrn (mocap_pos d) (3 * goal_mocapid)
                  (new_goal_position skateboard_position skateboard_xmat goal_position
                     left_or_right)) (\<lambda>mp.
           Inr (d\<lparr>mocap_pos := mp\<rparr>)))
         else Inr d))))"

subsection \<open>Where the goal and the skateboard live in the arrays\<close>

definition goal_adr :: "mjModel \<Rightarrow> nat" where
  \<comment> \<open>the offset \<^verbatim>\<open>3 * goal_mocapid\<close> of the goal marker in \<^verbatim>\<open>mocap_pos\<close>\<close>
  "goal_adr model =
     nat (3 * (body_mocapid model ! nat (mj_name2id model mjOBJ_XBODY ''goal'')))"

definition skateboard_adr :: "mjModel \<Rightarrow> nat" where
  \<comment> \<open>the offset \<^verbatim>\<open>3 * skateboard_body_id_\<close> of the skateboard in \<^verbatim>\<open>xpos\<close>\<close>
  "skateboard_adr model = nat (3 * mj_name2id model mjOBJ_XBODY ''skateboard'')"

definition skateboard_mat_adr :: "mjModel \<Rightarrow> nat" where
  \<comment> \<open>the offset \<^verbatim>\<open>9 * skateboard_body_id_\<close> of the skateboard in \<^verbatim>\<open>xmat\<close>\<close>
  "skateboard_mat_adr model = nat (9 * mj_name2id model mjOBJ_XBODY ''skateboard'')"

definition planar_distance :: "mjModel \<Rightarrow> mjData \<Rightarrow> real" where
  \<comment> \<open>the (x, y) distance between the goal marker and the skateboard\<close>
  "planar_distance model d =
     sqrt ((mocap_pos d ! goal_adr model - xpos d ! skateboard_adr model)\<^sup>2 +
           (mocap_pos d ! (goal_adr model + 1) - xpos d ! (skateboard_adr model + 1))\<^sup>2)"

definition heading_unit :: "mjModel \<Rightarrow> mjData \<Rightarrow> real list" where
  \<comment> \<open>the normalised first two entries of the first column of the skateboard's \<^verbatim>\<open>xmat\<close>\<close>
  "heading_unit model d =
     mju_normalize2 [xmat d ! skateboard_mat_adr model, xmat d ! (skateboard_mat_adr model + 3)]"

section \<open>The task and the helpers of the planner\<close>

text \<open>
  The members of \<^verbatim>\<open>Pushing::ResidualFn\<close> that the file reads, and of the task
  \<^verbatim>\<open>Pushing\<close> itself. A member \<^verbatim>\<open>x_\<close> of the source is the field \<open>x_m\<close> here.
\<close>

record ResidualFn =
  parameters_m :: "real list"
  current_mode_m :: int
  reference_time_m :: real
  skateboard_xbody_id_m :: int
  skateboard_body_id_m :: int
  goal_body_id_m :: int
  goal_body_mocap_id_m :: int

record Pushing =
  mode :: int
  parameters :: "real list"
  residual_m :: ResidualFn

subsection \<open>Helpers of \<^verbatim>\<open>mjpc/utilities\<close>\<close>

text \<open>
  Modelled from the spec: \<^verbatim>\<open>ParameterIndex\<close> of \<^verbatim>\<open>mjpc/utilities\<close> is not among the
  sources. The spec: a named parameter is looked up by name, and the lookup fails loudly
  (a configuration error) if the name is absent.
\<close>

definition ParameterIndex :: "mjModel \<Rightarrow> string \<Rightarrow> error + int" where
  "ParameterIndex model name =
     (case parameter_index model name of
        None \<Rightarrow> Inl (Fatal (''parameter not found: '' @ name))
      | Some i \<Rightarrow> Inr i)"

text \<open>
  Modelled from the spec: \<^verbatim>\<open>SensorByName\<close> of \<^verbatim>\<open>mjpc/utilities\<close> is not among the
  sources. The spec: a named sensor's values are looked up by string key, failing fatally
  if the named entity is absent. The result is the offset of the sensor's values in
  \<^verbatim>\<open>sensordata\<close>.
\<close>

definition SensorByName :: "mjModel \<Rightarrow> mjData \<Rightarrow> string \<Rightarrow> error + int" where
  "SensorByName model d name =
     (case sensor_adr model name of
        None \<Rightarrow> Inl (Fatal (''sensor not found: '' @ name))
      | Some a \<Rightarrow> Inr a)"

text \<open>
  Modelled from the spec: \<^verbatim>\<open>CheckSensorDim\<close> of \<^verbatim>\<open>mjpc/utilities\<close> is not among the
  sources. The spec: the total residual length must equal the externally declared sensor
  dimensionality; a mismatch is a fatal configuration error.
\<close>

definition CheckSensorDim :: "mjModel \<Rightarrow> int \<Rightarrow> error + unit" where
  "CheckSensorDim model residual_size =
     (if user_sensor_dim model \<noteq> residual_size
      then Inl (Fatal ''mismatch between user-sensor dimension and residual size'')
      else Inr ())"

section \<open>The reference frame synthesizer\<close>

definition upd :: "'a list \<Rightarrow> int \<Rightarrow> 'a \<Rightarrow> error + 'a list" where
  \<comment> \<open>\<^verbatim>\<open>p[i] = v\<close> for an array \<^verbatim>\<open>p\<close>\<close>
  "upd xs i v = (if 0 \<le> i \<and> i < int (length xs) then Inr (xs[nat i := v]) else Inl Fault)"

definition atan2 :: "real \<Rightarrow> real \<Rightarrow> real" where
  \<comment> \<open>\<^verbatim>\<open>atan2(y, x)\<close> on the reals (no signed zeros)\<close>
  "atan2 y x =
     (if 0 < x then arctan (y / x)
      else if x < 0 \<and> 0 \<le> y then arctan (y / x) + pi
      else if x < 0 \<and> y < 0 then arctan (y / x) - pi
      else if 0 < y then pi / 2
      else if y < 0 then - (pi / 2)
      else 0)"

definition parameter_value :: "mjModel \<Rightarrow> real list \<Rightarrow> string \<Rightarrow> error + real" where
  \<comment> \<open>\<^verbatim>\<open>parameters[ParameterIndex(model, name)]\<close>, the index into the vector unchecked\<close>
  "parameter_value model ps name = bnd (ParameterIndex model name) (\<lambda>i. rd ps i)"

text \<open>The four loops over the markers \<open>i < nmocap - 1\<close>, each on the vector of \<open>3 * (nmocap - 1)\<close> numbers.\<close>

definition translate_markers :: "nat \<Rightarrow> real list \<Rightarrow> real list \<Rightarrow> real \<times> real \<times> real list" where
  \<comment> \<open>sums the x and y of the markers and moves each marker to the skateboard\<close>
  "translate_markers n skateboard_center modified_mocap_pos =
     fold (\<lambda>i (average_mpos_0, average_mpos_1, mp).
             (average_mpos_0 + mp ! (3 * i + 0),
              average_mpos_1 + mp ! (3 * i + 1),
              mp[3 * i + 0 := mp ! (3 * i + 0) + skateboard_center ! 0,
                 3 * i + 1 := mp ! (3 * i + 1) + skateboard_center ! 1,
                 3 * i + 2 := mp ! (3 * i + 2) + (skateboard_center ! 2 - 0.1)]))
       [0..<n] (0, 0, modified_mocap_pos)"

definition center_markers :: "nat \<Rightarrow> real \<Rightarrow> real \<Rightarrow> real list \<Rightarrow> real list" where
  "center_markers n average_mpos_0 average_mpos_1 modified_mocap_pos =
     fold (\<lambda>i mp. mp[3 * i + 0 := mp ! (3 * i + 0) - average_mpos_0,
                      3 * i + 1 := mp ! (3 * i + 1) - average_mpos_1])
       [0..<n] modified_mocap_pos"

definition shift_markers :: "nat \<Rightarrow> real list \<Rightarrow> real list" where
  "shift_markers n modified_mocap_pos =
     fold (\<lambda>i mp. mp[3 * i + 0 := mp ! (3 * i + 0) - 0.1]) [0..<n] modified_mocap_pos"

definition rotate_markers :: "nat \<Rightarrow> real list \<Rightarrow> real \<Rightarrow> real \<Rightarrow> real list \<Rightarrow> real list" where
  \<comment> \<open>the tilt about the y axis and the rotation about the z axis through the skateboard\<close>
  "rotate_markers n skateboard_center tilt_angle skateboard_heading modified_mocap_pos =
     fold (\<lambda>i mp.
             let rel_x0 = mp ! (3 * i + 0) - skateboard_center ! 0;
                 rel_y = mp ! (3 * i + 1) - skateboard_center ! 1;
                 rotated_z = rel_x0 * sin tilt_angle + mp ! (3 * i + 2) * cos tilt_angle;
                 rel_x = rel_x0 * cos tilt_angle - mp ! (3 * i + 2) * sin tilt_angle;
                 rotated_x = cos skateboard_heading * rel_x - sin skateboard_heading * rel_y;
                 rotated_y = sin skateboard_heading * rel_x + cos skateboard_heading * rel_y
             in mp[3 * i + 0 := skateboard_center ! 0 + rotated_x,
                   3 * i + 1 := skateboard_center ! 1 + rotated_y,
                   3 * i + 2 := rotated_z])
       [0..<n] modified_mocap_pos"

definition upper_body_names :: "string list" where
  "upper_body_names =
     [''mocap[pelvis]'', ''mocap[lhip]'', ''mocap[rhip]'', ''mocap[lknee]'',
      ''mocap[head]'', ''mocap[lshoulder]'', ''mocap[rshoulder]'']"

definition upper_body_scale_y :: "real list" where
  "upper_body_scale_y = [- 0.25, - 0.5, - 0.5, - 1, 1.3, 1.3, 1.3]"

definition upper_body_scale_z :: "real list" where
  "upper_body_scale_z = [- 0.05, 0.05, 0.05, - 0.1, - 0.15, - 0.15, - 0.15]"

fun upper_body_loop ::
  "mjModel \<Rightarrow> real \<Rightarrow> real \<Rightarrow> real \<Rightarrow> (string \<times> real \<times> real) list \<Rightarrow> real list \<Rightarrow> error + real list" where
  "upper_body_loop model amplitude_y osc_y offset_y [] mp = Inr mp"
| "upper_body_loop model amplitude_y osc_y offset_y ((name, scale_y, scale_z) # rest) mp =
     (case rd (body_mocapid model) (mj_name2id model mjOBJ_BODY name) of
        Inl e \<Rightarrow> Inl e
      | Inr marker \<Rightarrow>
         (case rdn (key_mpos model) (3 * marker) 3 of
            Inl e \<Rightarrow> Inl e
          | Inr body_pos \<Rightarrow>
             (let body_y_ref = - scale_y * amplitude_y * 0.5 * osc_y + body_pos ! 1 + offset_y + 0.2;
                  body_z_ref = - scale_z * osc_y
              in case rd mp (3 * marker + 1) of
                   Inl e \<Rightarrow> Inl e
                 | Inr y \<Rightarrow>
                    (case upd mp (3 * marker + 1) (y + body_y_ref) of
                       Inl e \<Rightarrow> Inl e
                     | Inr mp1 \<Rightarrow>
                        (case rd mp1 (3 * marker + 2) of
                           Inl e \<Rightarrow> Inl e
                         | Inr z \<Rightarrow>
                            (case upd mp1 (3 * marker + 2) (z + body_z_ref) of
                               Inl e \<Rightarrow> Inl e
                             | Inr mp2 \<Rightarrow>
                                 upper_body_loop model amplitude_y osc_y offset_y rest mp2))))))"

text \<open>
  \<open>move_mocap_poses\<close> returns the \<open>3 * (nmocap - 1)\<close> numbers that it copies to
  \<^verbatim>\<open>result\<close>. A negative size for the \<^verbatim>\<open>std::vector\<close> throws. \<open>osc_y\<close> is the value
  \<^verbatim>\<open>sin(2 * M_PI * frequency_y * time + phase_y)\<close>, which the source writes out at each use.
\<close>

definition move_mocap_poses :: "mjModel \<Rightarrow> mjData \<Rightarrow> real list \<Rightarrow> int \<Rightarrow> error + real list" where
  "move_mocap_poses model d ps motion_mode =
     (if 3 * (nmocap model - 1) < 0 then Inl Fault else
      bnd (rdn (key_mpos model) (3 * nmocap model * motion_mode) (3 * (nmocap model - 1))) (\<lambda>frame.
      let n = nat (nmocap model - 1);
          modified_mocap_pos = map (\<lambda>x. x * 1) frame;
          skateboard_body_id = mj_name2id model mjOBJ_XBODY ''skateboard''
      in
      bnd (rdn (xpos d) (3 * skateboard_body_id) 3) (\<lambda>skateboard_center.
      let (sum_0, sum_1, mp1) = translate_markers n skateboard_center modified_mocap_pos;
          average_mpos_0 = sum_0 / real_of_int (nmocap model - 1);
          average_mpos_1 = sum_1 / real_of_int (nmocap model - 1);
          mp2 = center_markers n average_mpos_0 average_mpos_1 mp1;
          mp3 = shift_markers n mp2
      in
      bnd (parameter_value model ps ''Amplitude_z'') (\<lambda>amplitude_z.
      bnd (parameter_value model ps ''Amplitude_y'') (\<lambda>amplitude_y.
      bnd (parameter_value model ps ''Frequency_z'') (\<lambda>frequency_z.
      bnd (parameter_value model ps ''Frequency_y'') (\<lambda>frequency_y.
      bnd (parameter_value model ps ''Phase_z'') (\<lambda>phase_z.
      bnd (parameter_value model ps ''Phase_y'') (\<lambda>phase_y.
      bnd (parameter_value model ps ''Offset_z'') (\<lambda>offset_z.
      bnd (parameter_value model ps ''Offset_y'') (\<lambda>offset_y.
      let t = time d;
          mocap_body_id_ltoe = mj_name2id model mjOBJ_BODY ''mocap[ltoe]'';
          mocap_body_id_lheel = mj_name2id model mjOBJ_BODY ''mocap[lheel]''
      in
      bnd (rd (body_mocapid model) mocap_body_id_ltoe) (\<lambda>body_mocapid_ltoe.
      bnd (rd (body_mocapid model) mocap_body_id_lheel) (\<lambda>body_mocapid_lheel.
      bnd (rdn (key_mpos model) (3 * body_mocapid_ltoe) 3) (\<lambda>left_toe_pos.
      bnd (rdn (key_mpos model) (3 * body_mocapid_lheel) 3) (\<lambda>left_heel_pos.
      let osc_y = sin (2 * pi * frequency_y * t + phase_y);
          left_foot_z_ref = amplitude_z * sin (2 * pi * frequency_z * t + phase_z) - offset_z;
          left_foot_y_toe_ref = amplitude_y * osc_y + left_toe_pos ! 1 + offset_y;
          left_toe_new_pos = left_foot_y_toe_ref
      in
      bnd (rd mp3 (3 * body_mocapid_ltoe + 1)) (\<lambda>toe_y.
      bnd (upd mp3 (3 * body_mocapid_ltoe + 1) (toe_y + left_toe_new_pos)) (\<lambda>mp4.
      bnd (rd mp4 (3 * body_mocapid_ltoe + 1)) (\<lambda>toe_y'.
      bnd (upd mp4 (3 * body_mocapid_lheel + 1) (toe_y' - 0.2)) (\<lambda>mp5.
      bnd (upd mp5 (3 * body_mocapid_ltoe + 2) (left_foot_z_ref + left_toe_pos ! 2)) (\<lambda>mp6.
      bnd (upd mp6 (3 * body_mocapid_lheel + 2) (left_foot_z_ref + left_heel_pos ! 2)) (\<lambda>mp7.
      bnd (upper_body_loop model amplitude_y osc_y offset_y
             (zip upper_body_names (zip upper_body_scale_y upper_body_scale_z)) mp7) (\<lambda>mp8.
      bnd (rdn (xmat d) (9 * skateboard_body_id) 9) (\<lambda>skateboard_xmat.
      let skateboard_heading = atan2 (skateboard_xmat ! 3) (skateboard_xmat ! 0) - pi / 2.0;
          goal_id = mj_name2id model mjOBJ_XBODY ''goal''
      in
      if goal_id < 0 then Inl (Fatal ''body 'goal' not found'') else
      bnd (rd (body_mocapid model) goal_id) (\<lambda>goal_mocap_id.
      if goal_mocap_id < 0 then Inl (Fatal ''body 'goal' is not mocap'') else
      bnd (rd (mocap_pos d) (3 * goal_mocap_id + 1)) (\<lambda>goal_pos_1.
      bnd (rd (mocap_pos d) (3 * goal_mocap_id + 0)) (\<lambda>goal_pos_0.
      let goal_heading =
            atan2 (goal_pos_1 - skateboard_center ! 1) (goal_pos_0 - skateboard_center ! 0)
              - pi / 2.0;
          heading_error = sin (goal_heading - skateboard_heading) / 3
      in
      bnd (parameter_value model ps ''Tilt ratio'') (\<lambda>mocap_tilt.
      let tilt_angle = (min 0.5 (max (- 0.5) heading_error) * pi / 2.0) * mocap_tilt
      in Inr (rotate_markers n skateboard_center tilt_angle skateboard_heading mp8)
      )))))))))))))))))))))))))))"

section \<open>The residual\<close>

subsection \<open>Contact forces\<close>

text \<open>
  MuJoCo's \<^verbatim>\<open>mj_contactForce(m, d, id, result)\<close> clears the six numbers of the result and
  fills them only for a contact with \<open>0 \<le> id < ncon\<close> that is active
  (\<open>efc_address \<ge> 0\<close>).
\<close>

definition mj_contactForce :: "mjModel \<Rightarrow> mjData \<Rightarrow> int \<Rightarrow> error + real list" where
  "mj_contactForce model d cid =
     (if 0 \<le> cid \<and> cid < ncon d
      then bnd (rd (contact d) cid) (\<lambda>con.
             if 0 \<le> efc_address con
             then Inr (take 6 (decoded_force con @ replicate 6 0))
             else Inr (replicate 6 0))
      else Inr (replicate 6 0))"

definition mju_add3 :: "real list \<Rightarrow> real list \<Rightarrow> real list" where
  "mju_add3 a b = [a ! 0 + b ! 0, a ! 1 + b ! 1, a ! 2 + b ! 2]"

text \<open>
  The loop over the contacts. Constructing a \<^verbatim>\<open>std::string\<close> from the \<^verbatim>\<open>NULL\<close> that
  \<open>mj_id2name\<close> gives for an id without a name is undefined behaviour. The heel branch
  stores into \<^verbatim>\<open>left_toe_contact_id\<close> and the toe branch into
  \<^verbatim>\<open>left_heel_contact_id\<close>, as in the source. The result is the pair
  \<open>(left_heel_contact_id, left_toe_contact_id)\<close>.
\<close>

function contact_loop ::
  "mjModel \<Rightarrow> mjData \<Rightarrow> int \<Rightarrow> int \<Rightarrow> int \<Rightarrow> int \<Rightarrow> int \<Rightarrow> int \<Rightarrow> int \<Rightarrow> error + (int \<times> int)" where
  "contact_loop model d left_heel_id left_toe_id floor_id i
       left_heel_contact_id left_toe_contact_id found =
     (if i < ncon d then
        (case rd (contact d) i of
           Inl e \<Rightarrow> Inl e
         | Inr con \<Rightarrow>
            (case mj_id2name model mjOBJ_XBODY (geom1 con) of
               None \<Rightarrow> Inl Fault
             | Some name \<Rightarrow>
                (case mj_id2name model mjOBJ_XBODY (geom2 con) of
                   None \<Rightarrow> Inl Fault
                 | Some name2 \<Rightarrow>
                    if (geom1 con = left_heel_id \<and> geom2 con = floor_id) \<or>
                       (geom2 con = left_heel_id \<and> geom1 con = floor_id)
                    then (if found + 1 = 2 then Inr (left_heel_contact_id, i)
                          else contact_loop model d left_heel_id left_toe_id floor_id (i + 1)
                                 left_heel_contact_id i (found + 1))
                    else if (geom1 con = left_toe_id \<and> geom2 con = floor_id) \<or>
                            (geom2 con = left_toe_id \<and> geom1 con = floor_id)
                    then (if found + 1 = 2 then Inr (i, left_toe_contact_id)
                          else contact_loop model d left_heel_id left_toe_id floor_id (i + 1)
                                 i left_toe_contact_id (found + 1))
                    else (if found = 2 then Inr (left_heel_contact_id, left_toe_contact_id)
                          else contact_loop model d left_heel_id left_toe_id floor_id (i + 1)
                                 left_heel_contact_id left_toe_contact_id found))))
      else Inr (left_heel_contact_id, left_toe_contact_id))"
  by pat_completeness auto
termination
  by (relation "measure (\<lambda>(model, d, lh, lt, fl, i, hc, tc, found). nat (ncon d - i))") auto

definition force_abs_sum :: "mjModel \<Rightarrow> mjData \<Rightarrow> error + real" where
  \<comment> \<open>the first part of \<^verbatim>\<open>ComputeFootContactForceResidual\<close>, up to \<^verbatim>\<open>force_abs_sum\<close>\<close>
  "force_abs_sum model d =
     (let left_heel_id = mj_name2id model mjOBJ_GEOM ''foot1_left'';
          left_toe_id = mj_name2id model mjOBJ_GEOM ''foot2_left'';
          floor_id = mj_name2id model mjOBJ_GEOM ''floor''
      in bnd (contact_loop model d left_heel_id left_toe_id floor_id 0 (- 1) (- 1) 0)
           (\<lambda>(left_heel_contact_id, left_toe_contact_id).
         bnd (mj_contactForce model d left_toe_contact_id) (\<lambda>left_toe_contact_force.
         bnd (mj_contactForce model d left_heel_contact_id) (\<lambda>left_heel_contact_force.
         let left_foot_contact_force = mju_add3 left_toe_contact_force left_heel_contact_force
         in Inr (\<bar>left_foot_contact_force ! 0\<bar> + \<bar>left_foot_contact_force ! 1\<bar> +
                 \<bar>left_foot_contact_force ! 2\<bar>)))))"

definition ltoe_marker_height :: "mjModel \<Rightarrow> mjData \<Rightarrow> error + real" where
  \<comment> \<open>\<^verbatim>\<open>data->mocap_pos[3 * body_mocapid_ltoe + 2]\<close>\<close>
  "ltoe_marker_height model d =
     (let mocap_body_id_ltoe = mj_name2id model mjOBJ_BODY ''mocap[ltoe]''
      in bnd (rd (body_mocapid model) mocap_body_id_ltoe) (\<lambda>body_mocapid_ltoe.
         rd (mocap_pos d) (3 * body_mocapid_ltoe + 2)))"

definition ComputeFootContactForceResidual :: "mjModel \<Rightarrow> mjData \<Rightarrow> error + real list" where
  "ComputeFootContactForceResidual model d =
     bnd (force_abs_sum model d) (\<lambda>abs_sum.
     bnd (ltoe_marker_height model d) (\<lambda>ltoe_z.
     let should_add_force = (if ltoe_z \<le> 0.05 then 1 else 0);
         left_foot_contact_force_error =
           (1.0 / (1.0 + exp ((abs_sum - 500.0) / 80.0))) * should_add_force
     in Inr [left_foot_contact_force_error]))"

subsection \<open>Foot positions, board heading, board velocity, centre of mass\<close>

definition ComputeFootPositionsResidual :: "mjModel \<Rightarrow> mjData \<Rightarrow> error + real list" where
  "ComputeFootPositionsResidual model d =
     bnd (SensorByName model d ''tracking_pos[rtoe]'') (\<lambda>rtoe.
     bnd (SensorByName model d ''track-front-plate'') (\<lambda>front.
     bnd (SensorByName model d ''tracking_pos[ltoe]'') (\<lambda>ltoe.
     bnd (SensorByName model d ''track-tail'') (\<lambda>tail.
     bnd (rdn (sensordata d) rtoe 3) (\<lambda>humanoid_rtoe_pos_sensor.
     bnd (rdn (sensordata d) front 3) (\<lambda>board_front_plate_pos.
     bnd (rdn (sensordata d) ltoe 3) (\<lambda>humanoid_ltoe_pos_sensor.
     bnd (rdn (sensordata d) tail 3) (\<lambda>board_tail_pos.
     Inr [humanoid_rtoe_pos_sensor ! 0 - board_front_plate_pos ! 0,
          humanoid_rtoe_pos_sensor ! 1 - board_front_plate_pos ! 1,
          humanoid_rtoe_pos_sensor ! 2 - board_front_plate_pos ! 2,
          humanoid_ltoe_pos_sensor ! 0 - board_tail_pos ! 0,
          humanoid_ltoe_pos_sensor ! 1 - board_tail_pos ! 1,
          humanoid_ltoe_pos_sensor ! 2 - board_tail_pos ! 2]))))))))"

definition ComputeBoardHeadingResidual :: "ResidualFn \<Rightarrow> mjModel \<Rightarrow> mjData \<Rightarrow> error + real list" where
  "ComputeBoardHeadingResidual rf model d =
     bnd (rd (xmat d) (9 * skateboard_body_id_m rf + 0)) (\<lambda>h0.
     bnd (rd (xmat d) (9 * skateboard_body_id_m rf + 3)) (\<lambda>h1.
     bnd (rd (mocap_pos d) (3 * goal_body_mocap_id_m rf + 0)) (\<lambda>g0.
     bnd (rd (mocap_pos d) (3 * goal_body_mocap_id_m rf + 1)) (\<lambda>g1.
     bnd (rd (xpos d) (3 * skateboard_body_id_m rf + 0)) (\<lambda>s0.
     bnd (rd (xpos d) (3 * skateboard_body_id_m rf + 1)) (\<lambda>s1.
     let skateboard_heading = mju_normalize2 [h0, h1];
         board_to_goal = mju_normalize2 [g0 - s0, g1 - s1]
     in Inr [skateboard_heading ! 0 - board_to_goal ! 0,
             skateboard_heading ! 1 - board_to_goal ! 1]))))))"

definition mju_rotVecMatT :: "real list \<Rightarrow> real list \<Rightarrow> real list" where
  \<comment> \<open>\<^verbatim>\<open>mju_rotVecMatT(res, vec, mat)\<close>: the transposed 3x3 matrix times the vector\<close>
  "mju_rotVecMatT vec mat =
     [mat ! 0 * vec ! 0 + mat ! 3 * vec ! 1 + mat ! 6 * vec ! 2,
      mat ! 1 * vec ! 0 + mat ! 4 * vec ! 1 + mat ! 7 * vec ! 2,
      mat ! 2 * vec ! 0 + mat ! 5 * vec ! 1 + mat ! 8 * vec ! 2]"

definition ComputeBoardVelocityResidual :: "ResidualFn \<Rightarrow> mjModel \<Rightarrow> mjData \<Rightarrow> error + real list" where
  "ComputeBoardVelocityResidual rf model d =
     bnd (ParameterIndex model ''Velocity'') (\<lambda>velocity_index.
     bnd (rd (parameters_m rf) velocity_index) (\<lambda>velocity.
     let skateboard_linear_velocity_target = [velocity, 0.0, 0.0] in
     bnd (SensorByName model d ''skateboard_framelinvel'') (\<lambda>skateboard_framelinvel.
     bnd (rdn (sensordata d) skateboard_framelinvel 3) (\<lambda>skateboard_linear_velocity_global.
     bnd (rdn (xmat d) (9 * skateboard_body_id_m rf) 9) (\<lambda>skateboard_xmat.
     let skateboard_linear_velocity_local =
           mju_rotVecMatT skateboard_linear_velocity_global skateboard_xmat
     in Inr [skateboard_linear_velocity_target ! 0 - skateboard_linear_velocity_local ! 0 - 0.03,
             skateboard_linear_velocity_target ! 1 - skateboard_linear_velocity_local ! 1,
             skateboard_linear_velocity_target ! 2 - skateboard_linear_velocity_global ! 2])))))"

definition ComputeComVelXyResidual :: "mjModel \<Rightarrow> mjData \<Rightarrow> error + real list" where
  "ComputeComVelXyResidual model d =
     bnd (SensorByName model d ''skateboard_framelinvel'') (\<lambda>lin.
     bnd (SensorByName model d ''torso_subtreelinvel'') (\<lambda>com.
     bnd (rdn (sensordata d) lin 2) (\<lambda>linear_velocity_global.
     bnd (rdn (sensordata d) com 2) (\<lambda>com_velocity.
     Inr [linear_velocity_global ! 0 - com_velocity ! 0,
          linear_velocity_global ! 1 - com_velocity ! 1]))))"

subsection \<open>The tracking residual\<close>

definition body_names :: "string list" where
  "body_names =
     [''pelvis'', ''head'', ''ltoe'', ''rtoe'', ''lheel'', ''rheel'',
      ''lknee'', ''rknee'', ''lhand'', ''rhand'', ''lelbow'', ''relbow'',
      ''lshoulder'', ''rshoulder'', ''lhip'', ''rhip'']"

definition track_body_names :: "string list" where
  "track_body_names =
     [''pelvis'', ''ltoe'', ''rtoe'', ''lheel'', ''rheel'', ''lhand'',
      ''rhand'', ''lshoulder'', ''rshoulder'', ''lhip'', ''rhip'']"

fun map_res :: "('a \<Rightarrow> error + 'b) \<Rightarrow> 'a list \<Rightarrow> error + 'b list" where
  \<comment> \<open>a loop over a list that stops at the first error\<close>
  "map_res f [] = Inr []"
| "map_res f (x # xs) =
     (case f x of
        Inl e \<Rightarrow> Inl e
      | Inr y \<Rightarrow> (case map_res f xs of Inl e \<Rightarrow> Inl e | Inr ys \<Rightarrow> Inr (y # ys)))"

definition mocap_id_of :: "mjModel \<Rightarrow> string \<Rightarrow> error + int" where
  \<comment> \<open>the marker of a body: two lookups, each followed by its \<^verbatim>\<open>assert\<close>\<close>
  "mocap_id_of model body_name =
     (let mocap_body_name = ''mocap['' @ body_name @ '']'';
          mocap_body_id = mj_name2id model mjOBJ_BODY mocap_body_name
      in if \<not> 0 \<le> mocap_body_id then Inl AssertFail else
         bnd (rd (body_mocapid model) mocap_body_id) (\<lambda>body_mocapid.
         if \<not> 0 \<le> body_mocapid then Inl AssertFail else Inr body_mocapid))"

definition get_body_mpos ::
  "mjModel \<Rightarrow> real list \<Rightarrow> int \<Rightarrow> int \<Rightarrow> real \<Rightarrow> real \<Rightarrow> string \<Rightarrow> error + real list" where
  "get_body_mpos model mocap_translated key_index_0 key_index_1 weight_0 weight_1 body_name =
     bnd (mocap_id_of model body_name) (\<lambda>body_mocapid.
     bnd (rdn mocap_translated
            (3 * (nmocap model - 1) * key_index_0 + 3 * body_mocapid) 3) (\<lambda>current.
     bnd (rdn mocap_translated
            (3 * (nmocap model - 1) * key_index_1 + 3 * body_mocapid) 3) (\<lambda>next.
     Inr [current ! 0 * weight_0 + next ! 0 * weight_1,
          current ! 1 * weight_0 + next ! 1 * weight_1,
          current ! 2 * weight_0 + next ! 2 * weight_1])))"

definition get_body_sensor_pos :: "mjModel \<Rightarrow> mjData \<Rightarrow> string \<Rightarrow> error + real list" where
  "get_body_sensor_pos model d body_name =
     (let pos_sensor_name = ''tracking_pos['' @ body_name @ '']''
      in bnd (SensorByName model d pos_sensor_name) (\<lambda>sensor_pos.
         rdn (sensordata d) sensor_pos 3))"

fun average_loop ::
  "(string \<Rightarrow> error + real list) \<Rightarrow> (string \<Rightarrow> error + real list) \<Rightarrow> string list \<Rightarrow>
   real list \<Rightarrow> real list \<Rightarrow> error + (real list \<times> real list)" where
  "average_loop mpos sensor_pos [] avg_mpos avg_sensor_pos = Inr (avg_mpos, avg_sensor_pos)"
| "average_loop mpos sensor_pos (body_name # rest) avg_mpos avg_sensor_pos =
     (case mpos body_name of
        Inl e \<Rightarrow> Inl e
      | Inr body_mpos \<Rightarrow>
         (case sensor_pos body_name of
            Inl e \<Rightarrow> Inl e
          | Inr body_sensor_pos \<Rightarrow>
              average_loop mpos sensor_pos rest
                (mju_add3 avg_mpos body_mpos) (mju_add3 avg_sensor_pos body_sensor_pos)))"

definition mju_scl3 :: "real list \<Rightarrow> real \<Rightarrow> real list" where
  "mju_scl3 v s = [v ! 0 * s, v ! 1 * s, v ! 2 * s]"

definition position_residual ::
  "(string \<Rightarrow> error + real list) \<Rightarrow> (string \<Rightarrow> error + real list) \<Rightarrow>
   real list \<Rightarrow> real list \<Rightarrow> string \<Rightarrow> error + real list" where
  \<comment> \<open>one round of the loop over \<open>track_body_names\<close> for the positions\<close>
  "position_residual mpos sensor_pos avg_mpos avg_sensor_pos body_name =
     bnd (mpos body_name) (\<lambda>body_mpos0.
     bnd (sensor_pos body_name) (\<lambda>body_sensor_pos0.
     let body_mpos = mju_sub3 body_mpos0 avg_mpos;
         body_sensor_pos = mju_sub3 body_sensor_pos0 avg_sensor_pos
     in Inr [body_mpos ! 0 - body_sensor_pos ! 0,
             body_mpos ! 1 - body_sensor_pos ! 1,
             body_mpos ! 2 - body_sensor_pos ! 2]))"

definition velocity_residual ::
  "mjModel \<Rightarrow> mjData \<Rightarrow> int \<Rightarrow> int \<Rightarrow> string \<Rightarrow> error + real list" where
  \<comment> \<open>one round of the loop over \<open>track_body_names\<close> for the velocities\<close>
  "velocity_residual model d key_index_0 key_index_1 body_name =
     (let linvel_sensor_name = ''tracking_linvel['' @ body_name @ '']''
      in bnd (mocap_id_of model body_name) (\<lambda>body_mocapid.
         bnd (rdn (key_mpos model) (3 * nmocap model * key_index_1 + 3 * body_mocapid) 3) (\<lambda>next.
         bnd (rdn (key_mpos model) (3 * nmocap model * key_index_0 + 3 * body_mocapid) 3) (\<lambda>current.
         let fd_velocity = [(next ! 0 - current ! 0) * kFps,
                            (next ! 1 - current ! 1) * kFps,
                            (next ! 2 - current ! 2) * kFps]
         in bnd (SensorByName model d linvel_sensor_name) (\<lambda>adr.
            bnd (rdn (sensordata d) adr 3) (\<lambda>sensor_linvel.
            Inr [fd_velocity ! 0 - sensor_linvel ! 0,
                 fd_velocity ! 1 - sensor_linvel ! 1,
                 fd_velocity ! 2 - sensor_linvel ! 2]))))))"

definition ComputeTrackingResidual :: "ResidualFn \<Rightarrow> mjModel \<Rightarrow> mjData \<Rightarrow> error + real list" where
  "ComputeTrackingResidual rf model d =
     bnd (move_mocap_poses model d (parameters_m rf) (current_mode_m rf)) (\<lambda>mocap_translated.
     bnd (MotionStartIndex (current_mode_m rf)) (\<lambda>start.
     bnd (MotionLength (current_mode_m rf)) (\<lambda>len.
     let current_index = (time d - reference_time_m rf) * kFps + real_of_int start;
         last_key_index = start + len - 1
     in case ComputeInterpolationValues current_index last_key_index of
          (key_index_0, key_index_1, weight_0, weight_1) \<Rightarrow>
     let mpos = get_body_mpos model mocap_translated key_index_0 key_index_1 weight_0 weight_1;
         sensor_pos = get_body_sensor_pos model d
     in
     bnd (average_loop mpos sensor_pos body_names [0, 0, 0] [0, 0, 0]) (\<lambda>(sum_mpos, sum_sensor_pos).
     let num_body = int (length body_names);
         avg_mpos = mju_scl3 sum_mpos (1.0 / real_of_int num_body);
         avg_sensor_pos = mju_scl3 sum_sensor_pos (1.0 / real_of_int num_body)
     in
     bnd (map_res (position_residual mpos sensor_pos avg_mpos avg_sensor_pos) track_body_names)
       (\<lambda>positions.
     bnd (map_res (velocity_residual model d key_index_0 key_index_1) track_body_names)
       (\<lambda>velocities.
     Inr ([avg_mpos ! 0 - avg_sensor_pos ! 0,
           avg_mpos ! 1 - avg_sensor_pos ! 1,
           avg_mpos ! 2 - avg_sensor_pos ! 2] @ concat positions @ concat velocities)))))))"

subsection \<open>The assembled residual\<close>

text \<open>
  \<open>residual\<close> is the array that the caller passes; the result is that array after the
  call. The counter is the offset of the next block.
\<close>

definition Residual :: "ResidualFn \<Rightarrow> mjModel \<Rightarrow> mjData \<Rightarrow> real list \<Rightarrow> error + real list" where
  "Residual rf model d residual =
     (let counter0 = 0;
          n_humanoid_joints = nv model - 6 - 6 - 7
      in
      bnd (mju_copy residual counter0 (qvel d) 6 n_humanoid_joints) (\<lambda>r1.
      let counter1 = counter0 + n_humanoid_joints in
      bnd (mju_copy r1 counter1 (ctrl d) 0 (nu model)) (\<lambda>r2.
      let counter2 = counter1 + nu model in
      bnd (ComputeTrackingResidual rf model d) (\<lambda>tracking_residual.
      bnd (wrn r2 counter2 tracking_residual) (\<lambda>r3.
      let counter3 = counter2 + int (length tracking_residual) in
      bnd (ComputeFootPositionsResidual model d) (\<lambda>foot_positions_residual.
      bnd (wrn r3 counter3 foot_positions_residual) (\<lambda>r4.
      let counter4 = counter3 + int (length foot_positions_residual) in
      bnd (ComputeBoardHeadingResidual rf model d) (\<lambda>board_heading_residual.
      bnd (wrn r4 counter4 board_heading_residual) (\<lambda>r5.
      let counter5 = counter4 + int (length board_heading_residual) in
      bnd (ComputeBoardVelocityResidual rf model d) (\<lambda>board_velocity_residual.
      bnd (wrn r5 counter5 board_velocity_residual) (\<lambda>r6.
      let counter6 = counter5 + int (length board_velocity_residual) in
      bnd (ComputeFootContactForceResidual model d) (\<lambda>foot_contact_force_residual.
      bnd (wrn r6 counter6 foot_contact_force_residual) (\<lambda>r7.
      let counter7 = counter6 + int (length foot_contact_force_residual) in
      bnd (ComputeComVelXyResidual model d) (\<lambda>com_vel_xy_residual.
      bnd (wrn r7 counter7 com_vel_xy_residual) (\<lambda>r8.
      let counter8 = counter7 + int (length com_vel_xy_residual) in
      bnd (CheckSensorDim model counter8) (\<lambda>u.
      Inr r8))))))))))))))))"

section \<open>The transition controller\<close>

definition mju_scl :: "real list \<Rightarrow> real \<Rightarrow> real list" where
  "mju_scl v s = map (\<lambda>x. x * s) v"

definition mju_addTo :: "real list \<Rightarrow> real list \<Rightarrow> error + real list" where
  \<comment> \<open>\<^verbatim>\<open>mju_addTo(res, vec, n)\<close> with \<open>n\<close> the length of \<open>vec\<close>\<close>
  "mju_addTo res vec =
     (if vec = [] then Inr res
      else if length vec \<le> length res
      then Inr (map2 (+) (take (length vec) res) vec @ drop (length vec) res)
      else Inl Fault)"

definition motion_switch :: "Pushing \<Rightarrow> mjModel \<Rightarrow> mjData \<Rightarrow> int \<Rightarrow> error + (Pushing \<times> mjData)" where
  \<comment> \<open>the block ``check for motion switch'' of \<^verbatim>\<open>TransitionLocked\<close>\<close>
  "motion_switch task model d start =
     (if current_mode_m (residual_m task) \<noteq> mode task \<or> time d = 0.0
      then bnd (mju_copy (qpos d) 0 (key_qpos model) (nq model * start) (nq model)) (\<lambda>qp.
           bnd (mju_copy (qvel d) 0 (key_qvel model) (nv model * start) (nv model)) (\<lambda>qv.
           Inr (task\<lparr>residual_m := (residual_m task)
                        \<lparr>current_mode_m := mode task, reference_time_m := time d\<rparr>\<rparr>,
                d\<lparr>qpos := qp, qvel := qv\<rparr>)))
      else Inr (task, d))"

text \<open>
  \<open>TransitionLocked\<close> returns the task and the data after the step. \<open>left_or_right\<close> is
  the draw of \<open>move_goal\<close>. The scratch arrays on MuJoCo's stack are local values here.
\<close>

definition TransitionLocked ::
  "Pushing \<Rightarrow> mjModel \<Rightarrow> mjData \<Rightarrow> bool \<Rightarrow> error + (Pushing \<times> mjData)" where
  "TransitionLocked task model d left_or_right =
     (if \<not> 0 \<le> skateboard_body_id_m (residual_m task) then Inl AssertFail else
      bnd (MotionStartIndex (mode task)) (\<lambda>start.
      bnd (MotionLength (mode task)) (\<lambda>len.
      bnd (motion_switch task model d start) (\<lambda>(task1, d1).
      let current_index =
            (time d1 - reference_time_m (residual_m task1)) * kFps + real_of_int start;
          last_key_index = start + len - 1
      in case ComputeInterpolationValues current_index last_key_index of
           (key_index_0, key_index_1, weight_0, weight_1) \<Rightarrow>
      bnd (rdn (key_mpos model) (3 * nmocap model * key_index_0) (3 * (nmocap model - 1)))
        (\<lambda>frame_0.
      let mocap_pos_0 = mju_scl frame_0 weight_0 in
      bnd (rdn (key_mpos model) (3 * nmocap model * key_index_1) (3 * (nmocap model - 1)))
        (\<lambda>frame_1.
      let mocap_pos_1 = mju_scl frame_1 weight_1 in
      bnd (wrn (mocap_pos d1) 0 mocap_pos_0) (\<lambda>mp0.
      bnd (mju_addTo mp0 mocap_pos_1) (\<lambda>mp1.
      let d2 = d1\<lparr>mocap_pos := mp1\<rparr> in
      bnd (move_mocap_poses model d2 (parameters task) (mode task)) (\<lambda>mocap_pos_result.
      bnd (wrn (mocap_pos d2) 0 mocap_pos_result) (\<lambda>mp2.
      bnd (move_goal model (d2\<lparr>mocap_pos := mp2\<rparr>) left_or_right) (\<lambda>d3.
      Inr (task1, d3))))))))))))"

section \<open>The board velocity residual in the words of the specification\<close>

text \<open>
  The specification's reading of the board velocity residual, to compare with
  \<open>ComputeBoardVelocityResidual\<close>: the target \<open>(velocity, 0, 0)\<close> minus the velocity of the
  skateboard in its local frame on each of the three axes, and the tolerance subtracted
  from the longitudinal component.
\<close>

definition BoardVelocityResidual_spec :: "real \<Rightarrow> real list \<Rightarrow> real list \<Rightarrow> real list" where
  "BoardVelocityResidual_spec velocity linear_velocity_global skateboard_xmat =
     (let linear_velocity_local = mju_rotVecMatT linear_velocity_global skateboard_xmat
      in [velocity - linear_velocity_local ! 0 - 0.03,
          0 - linear_velocity_local ! 1,
          0 - linear_velocity_local ! 2])"

section \<open>A concrete model and state\<close>

text \<open>
  A small model with the bodies, geoms, sensors and parameters that the task looks up by
  name: 19 bodies (the world, the skateboard, the sixteen markers and the goal) and 25
  geoms. It has two humanoid degrees of freedom besides the 19 of the board and goal
  bodies, two actuators and one keyframe.
\<close>

fun find_from :: "int \<Rightarrow> string list \<Rightarrow> string \<Rightarrow> int" where
  "find_from i [] s = - 1"
| "find_from i (x # xs) s = (if x = s then i else find_from (i + 1) xs s)"

definition find_id :: "string list \<Rightarrow> string \<Rightarrow> int" where
  \<comment> \<open>the position of a name in a list of names, \<open>-1\<close> if it is not there\<close>
  "find_id names s = find_from 0 names s"

definition ex_bodies :: "string list" where
  "ex_bodies =
     [''world'', ''skateboard'',
      ''mocap[pelvis]'', ''mocap[head]'', ''mocap[ltoe]'', ''mocap[rtoe]'',
      ''mocap[lheel]'', ''mocap[rheel]'', ''mocap[lknee]'', ''mocap[rknee]'',
      ''mocap[lhand]'', ''mocap[rhand]'', ''mocap[lelbow]'', ''mocap[relbow]'',
      ''mocap[lshoulder]'', ''mocap[rshoulder]'', ''mocap[lhip]'', ''mocap[rhip]'',
      ''goal'']"

definition ex_geoms :: "string list" where
  "ex_geoms =
     [''floor'', ''foot1_left'', ''foot2_left'', ''foot1_right'', ''foot2_right'',
      ''torso'', ''head'', ''waist'', ''butt'', ''thigh_left'', ''thigh_right'',
      ''shin_left'', ''shin_right'', ''upper_arm_left'', ''upper_arm_right'',
      ''lower_arm_left'', ''lower_arm_right'', ''hand_left'', ''hand_right'',
      ''board-nose'', ''board-tail'', ''wheel_fl'', ''wheel_fr'', ''wheel_rl'', ''wheel_rr'']"

definition ex_sensors :: "string list" where
  "ex_sensors =
     [''tracking_pos[pelvis]'', ''tracking_pos[head]'', ''tracking_pos[ltoe]'',
      ''tracking_pos[rtoe]'', ''tracking_pos[lheel]'', ''tracking_pos[rheel]'',
      ''tracking_pos[lknee]'', ''tracking_pos[rknee]'', ''tracking_pos[lhand]'',
      ''tracking_pos[rhand]'', ''tracking_pos[lelbow]'', ''tracking_pos[relbow]'',
      ''tracking_pos[lshoulder]'', ''tracking_pos[rshoulder]'', ''tracking_pos[lhip]'',
      ''tracking_pos[rhip]'',
      ''tracking_linvel[pelvis]'', ''tracking_linvel[ltoe]'', ''tracking_linvel[rtoe]'',
      ''tracking_linvel[lheel]'', ''tracking_linvel[rheel]'', ''tracking_linvel[lhand]'',
      ''tracking_linvel[rhand]'', ''tracking_linvel[lshoulder]'',
      ''tracking_linvel[rshoulder]'', ''tracking_linvel[lhip]'', ''tracking_linvel[rhip]'',
      ''track-front-plate'', ''track-tail'', ''skateboard_framelinvel'',
      ''torso_subtreelinvel'']"

definition ex_parameters :: "string list" where
  "ex_parameters =
     [''Amplitude_z'', ''Amplitude_y'', ''Frequency_z'', ''Frequency_y'', ''Phase_z'',
      ''Phase_y'', ''Offset_z'', ''Offset_y'', ''Tilt ratio'', ''Velocity'']"

definition ex_lookup :: "string list \<Rightarrow> int \<Rightarrow> string \<Rightarrow> int option" where
  "ex_lookup names stride s =
     (if find_id names s < 0 then None else Some (stride * find_id names s))"

definition ex_model :: mjModel where
  "ex_model =
     \<lparr> nq = 23, nv = 21, nu = 2, nmocap = 17,
       body_mocapid = [- 1, - 1, 0, 1, 2, 3, 4, 5, 6, 7, 8, 9, 10, 11, 12, 13, 14, 15, 16],
       key_qpos = replicate 23 0,
       key_qvel = replicate 21 0,
       key_mpos = replicate 51 0,
       mj_name2id = (\<lambda>t s. case t of mjOBJ_GEOM \<Rightarrow> find_id ex_geoms s
                                   | _ \<Rightarrow> find_id ex_bodies s),
       mj_id2name = (\<lambda>t i. case t of
                        mjOBJ_GEOM \<Rightarrow> (if 0 \<le> i \<and> i < 25 then Some (ex_geoms ! nat i) else None)
                      | _ \<Rightarrow> (if 0 \<le> i \<and> i < 19 then Some (ex_bodies ! nat i) else None)),
       parameter_index = ex_lookup ex_parameters 1,
       sensor_adr = ex_lookup ex_sensors 3,
       user_sensor_dim = 87 \<rparr>"

definition ex_xmat :: "real list" where
  "ex_xmat = concat (replicate 19 [1, 0, 0, 0, 1, 0, 0, 0, 1])"

definition ex_data :: mjData where
  "ex_data =
     \<lparr> time = 0,
       qpos = replicate 23 0,
       qvel = replicate 21 0,
       ctrl = [0, 0],
       xpos = replicate 57 0,
       xmat = ex_xmat,
       mocap_pos = replicate 48 0 @ [3 / 10, 0, 0],
       sensordata = replicate 93 0,
       ncon = 0,
       contact = [] \<rparr>"


text \<open>The members of the residual and of the task for this model: mode 0, target velocity 1.\<close>

definition ex_residual :: ResidualFn where
  "ex_residual =
     \<lparr> parameters_m = [0, 0, 0, 0, 0, 0, 0, 0, 0, 1],
       current_mode_m = 0,
       reference_time_m = 0,
       skateboard_xbody_id_m = 1,
       skateboard_body_id_m = 1,
       goal_body_id_m = 18,
       goal_body_mocap_id_m = 16 \<rparr>"

text \<open>The left foot (geom \<open>foot1_left\<close>) on the floor, pressing with 500 force units.\<close>

definition ex_data_foot :: mjData where
  "ex_data_foot =
     ex_data\<lparr> ncon := 1,
              contact := [\<lparr> geom1 = 0, geom2 = 1, efc_address = 0,
                           decoded_force = [300, 120, - 80, 0, 0, 0] \<rparr>] \<rparr>"

text \<open>The left toe marker lifted to the height 0.2, and no contact.\<close>

definition ex_data_lifted :: mjData where
  "ex_data_lifted =
     ex_data\<lparr> mocap_pos := replicate 8 0 @ [1 / 5] @ replicate 39 0 @ [3 / 10, 0, 0] \<rparr>"

text \<open>A wheel of the board (geom 21) on the floor, and no contact of the left foot.\<close>

definition ex_data_wheel :: mjData where
  "ex_data_wheel =
     ex_data\<lparr> ncon := 1,
              contact := [\<lparr> geom1 = 0, geom2 = 21, efc_address = 0,
                           decoded_force = [200, 0, 0, 0, 0, 0] \<rparr>] \<rparr>"

text \<open>
  The board (body 1) pitched about its y axis (cosine 4/5, sine 3/5) and moving with
  velocity \<open>(1, 0, 0)\<close> in the world frame (the sensor \<open>skateboard_framelinvel\<close> at
  offset 87).
\<close>

definition ex_data_pitched :: mjData where
  "ex_data_pitched =
     ex_data\<lparr> xmat := [1, 0, 0, 0, 1, 0, 0, 0, 1] @
                      [4 / 5, 0, 3 / 5, 0, 1, 0, - 3 / 5, 0, 4 / 5] @
                      concat (replicate 17 [1, 0, 0, 0, 1, 0, 0, 0, 1]),
              sensordata := replicate 87 0 @ [1, 0, 0] @ replicate 3 0 \<rparr>"

definition ex_task :: Pushing where
  "ex_task =
     \<lparr> mode = 0,
       parameters = [0, 0, 0, 0, 0, 0, 0, 0, 0, 1],
       residual_m = ex_residual \<rparr>"

section \<open>Basic facts\<close>

lemma bnd_Inr [simp]: "bnd (Inr v) f = f v"
  by (simp add: bnd_def)

lemma bnd_Inl [simp]: "bnd (Inl e) f = Inl e"
  by (simp add: bnd_def)

lemma bnd_eq_Inr: "bnd x f = Inr y \<longleftrightarrow> (\<exists>v. x = Inr v \<and> f v = Inr y)"
  by (cases x) simp_all

lemma rd_eq_Inr: "rd xs i = Inr v \<longleftrightarrow> 0 \<le> i \<and> i < int (length xs) \<and> v = xs ! nat i"
  by (auto simp: rd_def)

lemma MotionStartIndex_loop_sum:
  "0 \<le> i \<Longrightarrow> i \<le> mid \<Longrightarrow> mid \<le> int (length kMotionLengths) \<Longrightarrow>
   MotionStartIndex_loop mid i start =
     Inr (start + (\<Sum>k = nat i..<nat mid. kMotionLengths ! k))"
proof (induction mid i start rule: MotionStartIndex_loop.induct)
  case (1 mid i start)
  show ?case
  proof (cases "i < mid")
    case False
    with "1.prems" have "i = mid" by simp
    then show ?thesis by simp
  next
    case True
    with "1.prems" have len: "MotionLength i = Inr (kMotionLengths ! nat i)"
      by (simp add: MotionLength_def rd_def)
    from True "1.prems" have split:
      "(\<Sum>k = nat i..<nat mid. kMotionLengths ! k) =
         kMotionLengths ! nat i + (\<Sum>k = nat (i + 1)..<nat mid. kMotionLengths ! k)"
      by (simp add: sum.atLeast_Suc_lessThan nat_add_distrib)
    have "MotionStartIndex_loop mid i start =
            MotionStartIndex_loop mid (i + 1) (start + kMotionLengths ! nat i)"
      using True len by simp
    also have "\<dots> = Inr (start + kMotionLengths ! nat i +
                       (\<Sum>k = nat (i + 1)..<nat mid. kMotionLengths ! k))"
      using "1.IH" [OF True len] True "1.prems" by simp
    also have "\<dots> = Inr (start + (\<Sum>k = nat i..<nat mid. kMotionLengths ! k))"
      by (simp add: split)
    finally show ?thesis .
  qed
qed

lemma wrap_int_id: "- 2147483648 \<le> x \<Longrightarrow> x < 2147483648 \<Longrightarrow> wrap_int x = x"
  by (simp add: wrap_int_def)

lemma clamp_bounds: "lo \<le> hi \<Longrightarrow> lo \<le> clamp v lo hi \<and> clamp v lo hi \<le> hi"
  by (simp add: clamp_def)

subsection \<open>Array reads and writes\<close>

lemma rdn_eq_Inr:
  "0 < n \<Longrightarrow> rdn xs off n = Inr v \<longleftrightarrow>
     0 \<le> off \<and> off + n \<le> int (length xs) \<and> v = take (nat n) (drop (nat off) xs)"
  by (auto simp: rdn_def)

lemma rdn_nth:
  assumes "rdn xs off n = Inr v" and "i < nat n"
  shows "v ! i = xs ! (nat off + i)"
  using assms by (auto simp: rdn_def split: if_splits)

lemma rdn_bounds:
  assumes "rdn xs off n = Inr v" and "0 < n"
  shows "0 \<le> off" and "nat off + nat n \<le> length xs"
  using assms by (auto simp: rdn_def split: if_splits)

lemma rdn_length:
  assumes "rdn xs off n = Inr v"
  shows "length v = nat n"
  using assms by (auto simp: rdn_def split: if_splits)

lemma wrn_length:
  assumes "wrn xs off src = Inr ys"
  shows "length ys = length xs"
  using assms by (auto simp: wrn_def split: if_splits)

lemma wrn_nth_in:
  assumes "wrn xs off src = Inr ys" and "i < length src"
  shows "ys ! (nat off + i) = src ! i"
  using assms by (auto simp: wrn_def nth_append split: if_splits)

lemma wrn_nth_out:
  assumes "wrn xs off src = Inr ys" and "i < nat off \<or> nat off + length src \<le> i"
  shows "ys ! i = xs ! i"
  using assms by (auto simp: wrn_def nth_append split: if_splits)

lemma wrn_ok:
  "0 \<le> off \<Longrightarrow> off + int (length src) \<le> int (length xs) \<Longrightarrow> \<exists>ys. wrn xs off src = Inr ys"
  by (simp add: wrn_def)

section \<open>The motion table and interpolation\<close>

text \<open>
  C9. For every motion id from 0 up to the number of motions (every valid id, and the id
  one past the last), \<open>MotionStartIndex\<close> returns the sum of the lengths
  \<open>MotionLength i\<close> of all motions \<open>i\<close> below the id, each of them read inside the table;
  and \<open>MotionStartIndex 0\<close> is 0.
\<close>

theorem MotionStartIndex_sum_of_lengths:
  assumes "0 \<le> mid" and "mid \<le> int (length kMotionLengths)"
  shows "MotionStartIndex mid = Inr (\<Sum>i<nat mid. kMotionLengths ! i) \<and>
         (\<forall>i<nat mid. MotionLength (int i) = Inr (kMotionLengths ! i)) \<and>
         MotionStartIndex 0 = Inr 0"
proof -
  have "MotionStartIndex mid = Inr (\<Sum>i<nat mid. kMotionLengths ! i)"
    using assms MotionStartIndex_loop_sum [of 0 mid 0]
    by (simp add: MotionStartIndex_def lessThan_atLeast0)
  moreover have "\<forall>i<nat mid. MotionLength (int i) = Inr (kMotionLengths ! i)"
    using assms by (auto simp: MotionLength_def rd_def)
  moreover have "MotionStartIndex 0 = Inr 0"
    by (simp add: MotionStartIndex_def)
  ultimately show ?thesis by blast
qed

theorem MotionStartIndex_sum_of_lengths_witness:
  "(0::int) \<le> 1 \<and> (1::int) \<le> int (length kMotionLengths) \<and>
   MotionStartIndex 1 = Inr 1 \<and> (0::nat) < nat 1 \<and> MotionLength (int 0) = Inr 1 \<and>
   MotionStartIndex 0 = Inr 0"
proof -
  have h: "(1::int) \<le> int (length kMotionLengths)"
    by (simp add: kMotionLengths_def)
  have z: "(0::int) \<le> 1" by simp
  show ?thesis
    using h MotionStartIndex_sum_of_lengths [OF z h]
    by (simp add: kMotionLengths_def)
qed

text \<open>
  C2 (amended). For every real index and every \<^verbatim>\<open>int\<close> \<open>max_index\<close> with
  \<open>0 \<le> max_index < INT_MAX\<close>, the weights returned by \<open>ComputeInterpolationValues\<close>
  sum to 1 and lie in \<open>[0, 1]\<close>; at \<open>index \<le> 0\<close> the first weight is 1; at
  \<open>index \<ge> max_index\<close> both frame indices are \<open>max_index\<close> and the second weight
  is 0; and always \<open>0 \<le> index_0 \<le> index_1 \<le> max_index\<close>.
\<close>

theorem ComputeInterpolationValues_in_range:
  assumes "0 \<le> max_index" and "max_index < INT_MAX"
    and "ComputeInterpolationValues index max_index = (index_0, index_1, weight_0, weight_1)"
  shows "weight_0 + weight_1 = 1 \<and> 0 \<le> weight_0 \<and> weight_0 \<le> 1 \<and>
         0 \<le> weight_1 \<and> weight_1 \<le> 1 \<and>
         (index \<le> 0 \<longrightarrow> weight_0 = 1) \<and>
         (real_of_int max_index \<le> index \<longrightarrow>
            index_0 = max_index \<and> index_1 = max_index \<and> weight_1 = 0) \<and>
         0 \<le> index_0 \<and> index_0 \<le> index_1 \<and> index_1 \<le> max_index"
proof -
  define c where "c = clamp index 0 (real_of_int max_index)"
  have c: "0 \<le> c" "c \<le> real_of_int max_index"
    using assms(1) clamp_bounds [of 0 "real_of_int max_index" index] by (simp_all add: c_def)
  have i0: "index_0 = \<lfloor>c\<rfloor>" and w1: "weight_1 = c - real_of_int \<lfloor>c\<rfloor>"
    and w0: "weight_0 = 1 - weight_1"
    and i1: "index_1 = min (wrap_int (\<lfloor>c\<rfloor> + 1)) max_index"
    using assms(3) unfolding ComputeInterpolationValues_def Let_def c_def by auto
  have fl: "0 \<le> \<lfloor>c\<rfloor>" "\<lfloor>c\<rfloor> \<le> max_index"
    using c by (simp_all add: floor_le_iff le_floor_iff)
  have "wrap_int (\<lfloor>c\<rfloor> + 1) = \<lfloor>c\<rfloor> + 1"
  proof (rule wrap_int_id)
    show "- 2147483648 \<le> \<lfloor>c\<rfloor> + 1" using fl(1) by linarith
    show "\<lfloor>c\<rfloor> + 1 < 2147483648" using fl(2) assms(2) unfolding INT_MAX_def by linarith
  qed
  then have i1': "index_1 = min (\<lfloor>c\<rfloor> + 1) max_index"
    using i1 by simp
  have frac: "0 \<le> c - real_of_int \<lfloor>c\<rfloor>" "c - real_of_int \<lfloor>c\<rfloor> < 1"
    by linarith+
  have low: "index \<le> 0 \<Longrightarrow> c = 0"
    using assms(1) by (auto simp: c_def clamp_def)
  have high: "real_of_int max_index \<le> index \<Longrightarrow> c = real_of_int max_index"
    using assms(1) by (auto simp: c_def clamp_def)
  show ?thesis
    using frac fl low high by (auto simp: i0 w1 w0 i1')
qed

theorem ComputeInterpolationValues_in_range_witness:
  "(0::int) \<le> 3 \<and> (3::int) < INT_MAX \<and>
   ComputeInterpolationValues (5 / 2) 3 = (2, 3, 1 / 2, 1 / 2) \<and>
   (1 / 2 :: real) + 1 / 2 = 1 \<and> (2::int) \<le> 3 \<and>
   (- 1 :: real) \<le> 0 \<and> ComputeInterpolationValues (- 1) 3 = (0, 1, 1, 0) \<and>
   real_of_int 3 \<le> 7 \<and> ComputeInterpolationValues 7 3 = (3, 3, 1, 0)"
proof -
  have e: "ComputeInterpolationValues (5 / 2) 3 = (2, 3, 1 / 2, 1 / 2)"
    "ComputeInterpolationValues (- 1) 3 = (0, 1, 1, 0)"
    "ComputeInterpolationValues 7 3 = (3, 3, 1, 0)"
    by (simp_all add: ComputeInterpolationValues_def clamp_def wrap_int_def Let_def)
  have h: "(3::int) < INT_MAX"
    by (simp add: INT_MAX_def)
  show ?thesis
    using ComputeInterpolationValues_in_range [OF _ h e(1)]
      ComputeInterpolationValues_in_range [OF _ h e(2)]
      ComputeInterpolationValues_in_range [OF _ h e(3)] e h
    by simp
qed

text \<open>
  At \<open>max_index = INT_MAX\<close> and an index at or beyond it, \<^verbatim>\<open>index_0 + 1\<close> leaves the
  range of \<^verbatim>\<open>int\<close>: the second frame index comes out negative.
\<close>

theorem ComputeInterpolationValues_overflow_counterexample:
  "(0::int) \<le> 2147483647 \<and>
   ComputeInterpolationValues 2147483647 2147483647 = (2147483647, - 2147483648, 1, 0) \<and>
   \<not> (2147483647::int) \<le> - 2147483648"
  by (simp add: ComputeInterpolationValues_def clamp_def wrap_int_def Let_def)

section \<open>Lookups in the concrete model\<close>

lemma ex_body_ids:
  "mj_name2id ex_model mjOBJ_BODY ''mocap[pelvis]'' = 2"
  "mj_name2id ex_model mjOBJ_BODY ''mocap[head]'' = 3"
  "mj_name2id ex_model mjOBJ_BODY ''mocap[ltoe]'' = 4"
  "mj_name2id ex_model mjOBJ_BODY ''mocap[rtoe]'' = 5"
  "mj_name2id ex_model mjOBJ_BODY ''mocap[lheel]'' = 6"
  "mj_name2id ex_model mjOBJ_BODY ''mocap[rheel]'' = 7"
  "mj_name2id ex_model mjOBJ_BODY ''mocap[lknee]'' = 8"
  "mj_name2id ex_model mjOBJ_BODY ''mocap[rknee]'' = 9"
  "mj_name2id ex_model mjOBJ_BODY ''mocap[lhand]'' = 10"
  "mj_name2id ex_model mjOBJ_BODY ''mocap[rhand]'' = 11"
  "mj_name2id ex_model mjOBJ_BODY ''mocap[lelbow]'' = 12"
  "mj_name2id ex_model mjOBJ_BODY ''mocap[relbow]'' = 13"
  "mj_name2id ex_model mjOBJ_BODY ''mocap[lshoulder]'' = 14"
  "mj_name2id ex_model mjOBJ_BODY ''mocap[rshoulder]'' = 15"
  "mj_name2id ex_model mjOBJ_BODY ''mocap[lhip]'' = 16"
  "mj_name2id ex_model mjOBJ_BODY ''mocap[rhip]'' = 17"
  "mj_name2id ex_model mjOBJ_XBODY ''goal'' = 18"
  "mj_name2id ex_model mjOBJ_XBODY ''skateboard'' = 1"
  by (simp_all add: ex_model_def ex_bodies_def find_id_def)

lemma ex_adrs:
  "goal_adr ex_model = 48" "skateboard_adr ex_model = 3" "skateboard_mat_adr ex_model = 9"
  by (simp_all add: goal_adr_def skateboard_adr_def skateboard_mat_adr_def ex_body_ids)
     (simp add: ex_model_def)

lemma ex_xmat_skateboard: "rdn ex_xmat 9 9 = Inr [1, 0, 0, 0, 1, 0, 0, 0, 1]"
  by (simp add: ex_xmat_def rdn_def eval_nat_numeral)


lemma sqrt_9_100: "sqrt (9 / 100) = 3 / 10"
  by (rule real_sqrt_unique) (simp_all add: power2_eq_square)


lemma ex_param:
  "ParameterIndex ex_model ''Amplitude_z'' = Inr 0"
  "ParameterIndex ex_model ''Amplitude_y'' = Inr 1"
  "ParameterIndex ex_model ''Frequency_z'' = Inr 2"
  "ParameterIndex ex_model ''Frequency_y'' = Inr 3"
  "ParameterIndex ex_model ''Phase_z'' = Inr 4"
  "ParameterIndex ex_model ''Phase_y'' = Inr 5"
  "ParameterIndex ex_model ''Offset_z'' = Inr 6"
  "ParameterIndex ex_model ''Offset_y'' = Inr 7"
  "ParameterIndex ex_model ''Tilt ratio'' = Inr 8"
  "ParameterIndex ex_model ''Velocity'' = Inr 9"
  by (simp_all add: ParameterIndex_def ex_model_def ex_lookup_def ex_parameters_def find_id_def)


lemma ex_model_fields:
  "nmocap ex_model = 17" "nv ex_model = 21" "nu ex_model = 2" "nq ex_model = 23"
  "body_mocapid ex_model = [- 1, - 1, 0, 1, 2, 3, 4, 5, 6, 7, 8, 9, 10, 11, 12, 13, 14, 15, 16]"
  "key_mpos ex_model = replicate 51 0" "key_qpos ex_model = replicate 23 0"
  "key_qvel ex_model = replicate 21 0" "user_sensor_dim ex_model = 87"
  by (simp_all add: ex_model_def)


lemma ex_geom_ids:
  "mj_name2id ex_model mjOBJ_GEOM ''foot1_left'' = 1"
  "mj_name2id ex_model mjOBJ_GEOM ''foot2_left'' = 2"
  "mj_name2id ex_model mjOBJ_GEOM ''floor'' = 0"
  by (simp_all add: ex_model_def ex_geoms_def find_id_def)


lemma ex_body_names:
  "mj_id2name ex_model mjOBJ_XBODY 0 = Some ''world''"
  "mj_id2name ex_model mjOBJ_XBODY 1 = Some ''skateboard''"
  "mj_id2name ex_model mjOBJ_XBODY 21 = None"
  by (simp_all add: ex_model_def ex_bodies_def find_id_def)


lemma ex_sensor_framelinvel:
  "SensorByName ex_model d ''skateboard_framelinvel'' = Inr 87"
  by (simp add: SensorByName_def ex_model_def ex_lookup_def ex_sensors_def find_id_def)

lemma ex_sensor_adr_field: "sensor_adr ex_model = ex_lookup ex_sensors 3"
  by (simp add: ex_model_def)

lemma ex_sensor_adrs:
  "sensor_adr ex_model ''tracking_pos[pelvis]'' = Some 0"
  "sensor_adr ex_model ''tracking_pos[head]'' = Some 3"
  "sensor_adr ex_model ''tracking_pos[ltoe]'' = Some 6"
  "sensor_adr ex_model ''tracking_pos[rtoe]'' = Some 9"
  "sensor_adr ex_model ''tracking_pos[lheel]'' = Some 12"
  "sensor_adr ex_model ''tracking_pos[rheel]'' = Some 15"
  "sensor_adr ex_model ''tracking_pos[lknee]'' = Some 18"
  "sensor_adr ex_model ''tracking_pos[rknee]'' = Some 21"
  "sensor_adr ex_model ''tracking_pos[lhand]'' = Some 24"
  "sensor_adr ex_model ''tracking_pos[rhand]'' = Some 27"
  "sensor_adr ex_model ''tracking_pos[lelbow]'' = Some 30"
  "sensor_adr ex_model ''tracking_pos[relbow]'' = Some 33"
  "sensor_adr ex_model ''tracking_pos[lshoulder]'' = Some 36"
  "sensor_adr ex_model ''tracking_pos[rshoulder]'' = Some 39"
  "sensor_adr ex_model ''tracking_pos[lhip]'' = Some 42"
  "sensor_adr ex_model ''tracking_pos[rhip]'' = Some 45"
  "sensor_adr ex_model ''tracking_linvel[pelvis]'' = Some 48"
  "sensor_adr ex_model ''tracking_linvel[ltoe]'' = Some 51"
  "sensor_adr ex_model ''tracking_linvel[rtoe]'' = Some 54"
  "sensor_adr ex_model ''tracking_linvel[lheel]'' = Some 57"
  "sensor_adr ex_model ''tracking_linvel[rheel]'' = Some 60"
  "sensor_adr ex_model ''tracking_linvel[lhand]'' = Some 63"
  "sensor_adr ex_model ''tracking_linvel[rhand]'' = Some 66"
  "sensor_adr ex_model ''tracking_linvel[lshoulder]'' = Some 69"
  "sensor_adr ex_model ''tracking_linvel[rshoulder]'' = Some 72"
  "sensor_adr ex_model ''tracking_linvel[lhip]'' = Some 75"
  "sensor_adr ex_model ''tracking_linvel[rhip]'' = Some 78"
  "sensor_adr ex_model ''track-front-plate'' = Some 81"
  "sensor_adr ex_model ''track-tail'' = Some 84"
  "sensor_adr ex_model ''skateboard_framelinvel'' = Some 87"
  "sensor_adr ex_model ''torso_subtreelinvel'' = Some 90"
  unfolding ex_sensor_adr_field by (simp_all add: ex_lookup_def ex_sensors_def find_id_def)

lemma ex_xmat_entries: "length ex_xmat = 171" "ex_xmat ! 9 = 1" "ex_xmat ! 12 = 0"
  by (simp_all add: ex_xmat_def eval_nat_numeral)

lemma ex_data_fields:
  "time ex_data = 0" "qpos ex_data = replicate 23 0" "qvel ex_data = replicate 21 0"
  "ctrl ex_data = [0, 0]" "xpos ex_data = replicate 57 0" "xmat ex_data = ex_xmat"
  "mocap_pos ex_data = replicate 48 0 @ [3 / 10, 0, 0]" "sensordata ex_data = replicate 93 0"
  "ncon ex_data = 0" "contact ex_data = []"
  by (simp_all add: ex_data_def)

lemma ex_residual_fields:
  "parameters_m ex_residual = [0, 0, 0, 0, 0, 0, 0, 0, 0, 1]"
  "current_mode_m ex_residual = 0" "reference_time_m ex_residual = 0"
  "skateboard_body_id_m ex_residual = 1" "goal_body_mocap_id_m ex_residual = 16"
  by (simp_all add: ex_residual_def)

lemma CIV_zero: "ComputeInterpolationValues x 0 = (0, 0, 1, 0)"
  by (simp add: ComputeInterpolationValues_def clamp_def wrap_int_def Let_def)

lemma Motion_zero: "MotionStartIndex 0 = Inr 0" "MotionLength 0 = Inr 1"
  by (simp_all add: MotionStartIndex_def MotionLength_def rd_def kMotionLengths_def)

section \<open>The goal controller\<close>

lemma mju_normalize2_unit:
  "(mju_normalize2 v ! 0)\<^sup>2 + (mju_normalize2 v ! 1)\<^sup>2 = 1"
proof (cases "mju_norm2 v < mjMINVAL")
  case True
  then show ?thesis by (simp add: mju_normalize2_def)
next
  case False
  define n where "n = mju_norm2 v"
  have "0 < mjMINVAL" by (simp add: mjMINVAL_def)
  with False have n: "0 < n" by (simp add: n_def)
  have sq: "n\<^sup>2 = v ! 0 * v ! 0 + v ! 1 * v ! 1"
    unfolding n_def mju_norm2_def by (simp add: sum_squares_ge_zero flip: power2_eq_square) 
  have "(v ! 0 * (1 / n))\<^sup>2 + (v ! 1 * (1 / n))\<^sup>2 = (v ! 0 * v ! 0 + v ! 1 * v ! 1) / n\<^sup>2"
    by (simp add: power2_eq_square add_divide_distrib)
  also have "\<dots> = n\<^sup>2 / n\<^sup>2" by (simp only: sq)
  also have "\<dots> = 1" using n by simp
  finally show ?thesis using False by (simp add: mju_normalize2_def Let_def n_def)
qed



lemma move_goal_Inr:
  assumes "move_goal model d lr = Inr d'"
  shows "\<exists>gm gp sp.
    0 \<le> mj_name2id model mjOBJ_XBODY ''goal'' \<and>
    rd (body_mocapid model) (mj_name2id model mjOBJ_XBODY ''goal'') = Inr gm \<and>
    0 \<le> gm \<and>
    rdn (mocap_pos d) (3 * gm) 3 = Inr gp \<and>
    rdn (xpos d) (3 * mj_name2id model mjOBJ_XBODY ''skateboard'') 3 = Inr sp \<and>
    (mju_norm2 (mju_sub3 gp sp) < 0.5 \<longrightarrow>
       (\<exists>xm mp. rdn (xmat d) (9 * mj_name2id model mjOBJ_XBODY ''skateboard'') 9 = Inr xm \<and>
          wrn (mocap_pos d) (3 * gm) (new_goal_position sp xm gp lr) = Inr mp \<and>
          d' = d\<lparr>mocap_pos := mp\<rparr>)) \<and>
    (\<not> mju_norm2 (mju_sub3 gp sp) < 0.5 \<longrightarrow> d' = d)"
  using assms unfolding move_goal_def Let_def
  by (auto simp: bnd_eq_Inr split: if_splits)

lemma new_goal_position_nth:
  "new_goal_position sp xm gp lr ! 0 =
     sp ! 0 + 8 * (mju_normalize2 [xm ! 0, xm ! 3] ! 0) +
       (if lr then - 2 * (mju_normalize2 [xm ! 0, xm ! 3] ! 1)
        else 2 * (mju_normalize2 [xm ! 0, xm ! 3] ! 1))"
  "new_goal_position sp xm gp lr ! 1 =
     sp ! 1 + 8 * (mju_normalize2 [xm ! 0, xm ! 3] ! 1) +
       (if lr then 2 * (mju_normalize2 [xm ! 0, xm ! 3] ! 0)
        else - 2 * (mju_normalize2 [xm ! 0, xm ! 3] ! 0))"
  "new_goal_position sp xm gp lr ! 2 = gp ! 2"
  "length (new_goal_position sp xm gp lr) = 3"
  by (simp_all add: new_goal_position_def Let_def)

lemma offset_distance:
  fixes u0 u1 :: real
  assumes "u0\<^sup>2 + u1\<^sup>2 = 1"
  shows "(8 * u0 - 2 * u1)\<^sup>2 + (8 * u1 + 2 * u0)\<^sup>2 = 68"
    and "(8 * u0 + 2 * u1)\<^sup>2 + (8 * u1 - 2 * u0)\<^sup>2 = 68"
proof -
  have "(8 * u0 - 2 * u1)\<^sup>2 + (8 * u1 + 2 * u0)\<^sup>2 = 68 * (u0\<^sup>2 + u1\<^sup>2)"
    by (simp add: power2_eq_square algebra_simps)
  then show "(8 * u0 - 2 * u1)\<^sup>2 + (8 * u1 + 2 * u0)\<^sup>2 = 68"
    using assms by simp
  have "(8 * u0 + 2 * u1)\<^sup>2 + (8 * u1 - 2 * u0)\<^sup>2 = 68 * (u0\<^sup>2 + u1\<^sup>2)"
    by (simp add: power2_eq_square algebra_simps)
  then show "(8 * u0 + 2 * u1)\<^sup>2 + (8 * u1 - 2 * u0)\<^sup>2 = 68"
    using assms by simp
qed

lemma move_goal_facts:
  assumes "move_goal model d lr = Inr d'"
  shows "length (mocap_pos d') = length (mocap_pos d)"
    and "d' = d\<lparr>mocap_pos := mocap_pos d'\<rparr>"
    and "goal_adr model + 3 \<le> length (mocap_pos d)"
    and "\<not> planar_distance model d < 0.5 \<Longrightarrow> d' = d"
    and "\<And>i. i < goal_adr model \<or> goal_adr model + 3 \<le> i \<Longrightarrow>
           mocap_pos d' ! i = mocap_pos d ! i"
    and "planar_distance model d < 0.5 \<Longrightarrow>
           mocap_pos d' ! goal_adr model =
             xpos d ! skateboard_adr model + 8 * (heading_unit model d ! 0) +
               (if lr then - 2 * (heading_unit model d ! 1)
                else 2 * (heading_unit model d ! 1)) \<and>
           mocap_pos d' ! (goal_adr model + 1) =
             xpos d ! (skateboard_adr model + 1) + 8 * (heading_unit model d ! 1) +
               (if lr then 2 * (heading_unit model d ! 0)
                else - 2 * (heading_unit model d ! 0)) \<and>
           mocap_pos d' ! (goal_adr model + 2) = mocap_pos d ! (goal_adr model + 2)"
proof -
  let ?gid = "mj_name2id model mjOBJ_XBODY ''goal''"
  let ?sid = "mj_name2id model mjOBJ_XBODY ''skateboard''"
  obtain gm gp sp where
    gid: "0 \<le> ?gid" and gm: "rd (body_mocapid model) ?gid = Inr gm" and gm0: "0 \<le> gm"
    and gp: "rdn (mocap_pos d) (3 * gm) 3 = Inr gp"
    and sp: "rdn (xpos d) (3 * ?sid) 3 = Inr sp"
    and near: "mju_norm2 (mju_sub3 gp sp) < 0.5 \<Longrightarrow>
       \<exists>xm mp. rdn (xmat d) (9 * ?sid) 9 = Inr xm \<and>
          wrn (mocap_pos d) (3 * gm) (new_goal_position sp xm gp lr) = Inr mp \<and>
          d' = d\<lparr>mocap_pos := mp\<rparr>"
    and far: "\<not> mju_norm2 (mju_sub3 gp sp) < 0.5 \<Longrightarrow> d' = d"
    using move_goal_Inr [OF assms] by blast
  have g: "goal_adr model = nat (3 * gm)"
    using gm by (simp add: goal_adr_def rd_eq_Inr)
  have gp_nth: "gp ! 0 = mocap_pos d ! goal_adr model"
    "gp ! 1 = mocap_pos d ! (goal_adr model + 1)"
    "gp ! 2 = mocap_pos d ! (goal_adr model + 2)"
    using rdn_nth [OF gp, of 0] rdn_nth [OF gp, of 1] rdn_nth [OF gp, of 2] by (simp_all add: g)
  have sp_nth: "sp ! 0 = xpos d ! skateboard_adr model"
    "sp ! 1 = xpos d ! (skateboard_adr model + 1)"
    using rdn_nth [OF sp, of 0] rdn_nth [OF sp, of 1] by (simp_all add: skateboard_adr_def)
  have dist: "mju_norm2 (mju_sub3 gp sp) = planar_distance model d"
    by (simp add: mju_norm2_def mju_sub3_def planar_distance_def gp_nth sp_nth power2_eq_square
          del: One_nat_def)
  show bound: "goal_adr model + 3 \<le> length (mocap_pos d)"
    using rdn_bounds(2) [OF gp] by (simp add: g)
  show "\<not> planar_distance model d < 0.5 \<Longrightarrow> d' = d"
    using far dist by simp
  show "length (mocap_pos d') = length (mocap_pos d)"
  proof (cases "planar_distance model d < 0.5")
    case True
    with near dist obtain xm mp where
      "wrn (mocap_pos d) (3 * gm) (new_goal_position sp xm gp lr) = Inr mp"
      "d' = d\<lparr>mocap_pos := mp\<rparr>" by auto
    then show ?thesis using wrn_length by fastforce
  next
    case False
    with far dist show ?thesis by simp
  qed
  show "d' = d\<lparr>mocap_pos := mocap_pos d'\<rparr>"
  proof (cases "planar_distance model d < 0.5")
    case True
    with near dist obtain xm mp where "d' = d\<lparr>mocap_pos := mp\<rparr>" by auto
    then show ?thesis by simp
  next
    case False
    with far dist show ?thesis by simp
  qed
  show "mocap_pos d' ! i = mocap_pos d ! i" if "i < goal_adr model \<or> goal_adr model + 3 \<le> i" for i
  proof (cases "planar_distance model d < 0.5")
    case True
    with near dist obtain xm mp where
      w: "wrn (mocap_pos d) (3 * gm) (new_goal_position sp xm gp lr) = Inr mp"
      and d': "d' = d\<lparr>mocap_pos := mp\<rparr>" by auto
    have "mp ! i = mocap_pos d ! i"
      using that by (intro wrn_nth_out [OF w]) (simp add: g new_goal_position_nth)
    then show ?thesis by (simp add: d')
  next
    case False
    with far dist show ?thesis by simp
  qed
  show "mocap_pos d' ! goal_adr model =
             xpos d ! skateboard_adr model + 8 * (heading_unit model d ! 0) +
               (if lr then - 2 * (heading_unit model d ! 1)
                else 2 * (heading_unit model d ! 1)) \<and>
           mocap_pos d' ! (goal_adr model + 1) =
             xpos d ! (skateboard_adr model + 1) + 8 * (heading_unit model d ! 1) +
               (if lr then 2 * (heading_unit model d ! 0)
                else - 2 * (heading_unit model d ! 0)) \<and>
           mocap_pos d' ! (goal_adr model + 2) = mocap_pos d ! (goal_adr model + 2)"
    if "planar_distance model d < 0.5"
  proof -
    from that near dist obtain xm mp where
      xm: "rdn (xmat d) (9 * ?sid) 9 = Inr xm"
      and w: "wrn (mocap_pos d) (3 * gm) (new_goal_position sp xm gp lr) = Inr mp"
      and d': "d' = d\<lparr>mocap_pos := mp\<rparr>" by auto
    have xm_nth: "xm ! 0 = xmat d ! skateboard_mat_adr model"
      "xm ! 3 = xmat d ! (skateboard_mat_adr model + 3)"
      using rdn_nth [OF xm, of 0] rdn_nth [OF xm, of 3] by (simp_all add: skateboard_mat_adr_def)
    have u: "mju_normalize2 [xm ! 0, xm ! 3] = heading_unit model d"
      by (simp add: heading_unit_def xm_nth)
    have "mp ! (goal_adr model + 0) = new_goal_position sp xm gp lr ! 0"
      "mp ! (goal_adr model + 1) = new_goal_position sp xm gp lr ! 1"
      "mp ! (goal_adr model + 2) = new_goal_position sp xm gp lr ! 2"
      unfolding g by (rule wrn_nth_in [OF w], simp add: new_goal_position_nth)+
    then show ?thesis
      by (simp add: d' new_goal_position_nth u sp_nth gp_nth del: One_nat_def)
  qed
qed


subsection \<open>The example state\<close>

lemma ex_planar_distance: "planar_distance ex_model ex_data = 3 / 10"
  unfolding planar_distance_def ex_adrs
  by (simp add: ex_data_def nth_append)


lemma ex_move_goal:
  "move_goal ex_model ex_data True = Inr (ex_data\<lparr>mocap_pos := replicate 48 0 @ [8, 2, 0]\<rparr>)"
proof -
  have m: "body_mocapid ex_model = [- 1, - 1, 0, 1, 2, 3, 4, 5, 6, 7, 8, 9, 10, 11, 12, 13, 14, 15, 16]"
    by (simp add: ex_model_def)
  have d: "mocap_pos ex_data = replicate 48 0 @ [3 / 10, 0, 0]" "xpos ex_data = replicate 57 0"
    "xmat ex_data = ex_xmat"
    by (simp_all add: ex_data_def)
  show ?thesis
    unfolding move_goal_def Let_def ex_body_ids m d
    by (simp add: rd_def rdn_def [of "_ @ _"] rdn_def [of "replicate _ _"] wrn_def ex_xmat_skateboard
        new_goal_position_def mju_normalize2_def mju_norm2_def mju_sub3_def mjMINVAL_def Let_def sqrt_9_100)
qed


lemma ex_move_goal_ok:
  assumes "xpos d = replicate 57 0" and "xmat d = ex_xmat" and "length (mocap_pos d) = 51"
  shows "\<exists>d'. move_goal ex_model d lr = Inr d'"
  unfolding move_goal_def Let_def ex_body_ids ex_model_fields assms(1,2)
  by (simp add: rd_def rdn_def wrn_def new_goal_position_nth assms ex_xmat_entries)

text \<open>
  C3. Whenever \<open>move_goal\<close> returns, it has changed the data if and only if the planar
  distance between the goal marker and the skateboard was strictly below 0.5. When it
  relocates, the new goal is the skateboard position plus 8 times the unit heading
  \<open>heading_unit\<close> (the normalised \<open>(xmat[0], xmat[3])\<close> of the board; \<open>(1, 0)\<close> when that
  vector is shorter than \<open>mjMINVAL\<close>) plus or minus 2 times its perpendicular, the sign
  taken from the draw; the z coordinate of the goal is kept; and for both draws the
  planar distance from the skateboard to the new goal is \<open>sqrt (8\<^sup>2 + 2\<^sup>2)\<close>.
\<close>

theorem move_goal_relocates_when_near:
  assumes "move_goal model d left_or_right = Inr d'"
  shows "(d' \<noteq> d \<longleftrightarrow> planar_distance model d < 0.5) \<and>
         (planar_distance model d < 0.5 \<longrightarrow>
            mocap_pos d' ! goal_adr model =
              xpos d ! skateboard_adr model + 8.0 * (heading_unit model d ! 0) +
                (if left_or_right then - 2.0 * (heading_unit model d ! 1)
                 else 2.0 * (heading_unit model d ! 1)) \<and>
            mocap_pos d' ! (goal_adr model + 1) =
              xpos d ! (skateboard_adr model + 1) + 8.0 * (heading_unit model d ! 1) +
                (if left_or_right then 2.0 * (heading_unit model d ! 0)
                 else - 2.0 * (heading_unit model d ! 0)) \<and>
            mocap_pos d' ! (goal_adr model + 2) = mocap_pos d ! (goal_adr model + 2) \<and>
            planar_distance model d' = sqrt (8.0\<^sup>2 + 2.0\<^sup>2)) \<and>
         (heading_unit model d ! 0)\<^sup>2 + (heading_unit model d ! 1)\<^sup>2 = 1"
proof -
  note f = move_goal_facts [OF assms]
  have unit: "(heading_unit model d ! 0)\<^sup>2 + (heading_unit model d ! 1)\<^sup>2 = 1"
    unfolding heading_unit_def by (rule mju_normalize2_unit)
  have far: "d' = d" if "\<not> planar_distance model d < 0.5"
    using f(4) that by simp
  have near: "planar_distance model d' = sqrt 68" if n: "planar_distance model d < 0.5"
  proof -
    have x: "xpos d' = xpos d"
      by (subst f(2)) simp
    note g = f(6) [OF n]
    show ?thesis
    proof (cases left_or_right)
      case True
      with g x offset_distance(1) [OF unit] show ?thesis
        by (simp add: planar_distance_def del: One_nat_def)
    next
      case False
      with g x offset_distance(2) [OF unit] show ?thesis
        by (simp add: planar_distance_def del: One_nat_def)
    qed
  qed
  have big: "(0.5::real) \<le> sqrt 68"
    by (rule real_le_rsqrt) (simp add: power2_eq_square)
  have changed: "d' \<noteq> d" if n: "planar_distance model d < 0.5"
    using near [OF n] n big by auto
  show ?thesis
    using unit far near changed f(6) by auto
qed

theorem move_goal_relocates_when_near_witness:
  "move_goal ex_model ex_data True =
     Inr (ex_data\<lparr>mocap_pos := replicate 48 0 @ [8, 2, 0]\<rparr>) \<and>
   planar_distance ex_model ex_data < 0.5 \<and>
   ex_data\<lparr>mocap_pos := replicate 48 0 @ [8, 2, 0]\<rparr> \<noteq> ex_data \<and>
   planar_distance ex_model (ex_data\<lparr>mocap_pos := replicate 48 0 @ [8, 2, 0]\<rparr>) =
     sqrt (8.0\<^sup>2 + 2.0\<^sup>2)"
proof -
  have near: "planar_distance ex_model ex_data < 0.5"
    by (simp add: ex_planar_distance)
  show ?thesis
    using move_goal_relocates_when_near [OF ex_move_goal] near ex_move_goal by simp
qed

text \<open>
  C10. Whenever \<open>move_goal\<close> returns, whether or not it relocated the goal, the data
  after the call differ from the data before at most in \<open>mocap_pos\<close>, which keeps its
  length and every entry other than the three of the goal marker.
\<close>

theorem move_goal_frame:
  assumes "move_goal model d left_or_right = Inr d'"
  shows "d' = d\<lparr>mocap_pos := mocap_pos d'\<rparr> \<and>
         length (mocap_pos d') = length (mocap_pos d) \<and>
         goal_adr model + 3 \<le> length (mocap_pos d) \<and>
         (\<forall>i. i < goal_adr model \<or> goal_adr model + 3 \<le> i \<longrightarrow>
              mocap_pos d' ! i = mocap_pos d ! i)"
  using move_goal_facts(1,2,3,5) [OF assms] by blast

theorem move_goal_frame_witness:
  "move_goal ex_model ex_data True =
     Inr (ex_data\<lparr>mocap_pos := replicate 48 0 @ [8, 2, 0]\<rparr>) \<and>
   goal_adr ex_model = 48 \<and>
   (replicate 48 0 @ [8, 2, 0 :: real]) ! 47 = mocap_pos ex_data ! 47 \<and>
   length (replicate 48 0 @ [8, 2, 0 :: real]) = length (mocap_pos ex_data)"
proof -
  show ?thesis
    using move_goal_frame [OF ex_move_goal] ex_adrs(1) ex_move_goal
    by (simp add: ex_data_def nth_append)
qed

section \<open>The foot contact-force residual\<close>

lemma logistic_range: "0 < 1 / (1 + exp x) \<and> 1 / (1 + exp (x::real)) < 1"
proof -
  have "0 < exp x" by simp
  then show ?thesis by (simp add: field_simps add_pos_pos)
qed

lemma mj_contactForce_sentinel: "mj_contactForce model d (- 1) = Inr (replicate 6 0)"
  by (simp add: mj_contactForce_def)

lemma contact_loop_no_contacts:
  "ncon d \<le> i \<Longrightarrow> contact_loop model d lh lt fl i hc tc found = Inr (hc, tc)"
  by simp

lemma force_abs_sum_no_contacts: "ncon d \<le> 0 \<Longrightarrow> force_abs_sum model d = Inr 0"
  by (simp add: force_abs_sum_def Let_def mj_contactForce_sentinel mju_add3_def eval_nat_numeral)

text \<open>
  When every contact of the scene is between geoms whose ids also name bodies and none of them
  pairs a left-foot geom with the floor, both contact ids keep their initial value \<open>-1\<close> and the
  summed force is zero.\<close>

lemma contact_loop_no_left_foot:
  assumes "0 \<le> i" and "ncon d \<le> int (length (contact d))"
    and "\<And>k. i \<le> k \<Longrightarrow> k < ncon d \<Longrightarrow>
           mj_id2name model mjOBJ_XBODY (geom1 (contact d ! nat k)) \<noteq> None \<and>
           mj_id2name model mjOBJ_XBODY (geom2 (contact d ! nat k)) \<noteq> None \<and>
           \<not> (geom1 (contact d ! nat k) = lh \<and> geom2 (contact d ! nat k) = fl) \<and>
           \<not> (geom2 (contact d ! nat k) = lh \<and> geom1 (contact d ! nat k) = fl) \<and>
           \<not> (geom1 (contact d ! nat k) = lt \<and> geom2 (contact d ! nat k) = fl) \<and>
           \<not> (geom2 (contact d ! nat k) = lt \<and> geom1 (contact d ! nat k) = fl)"
  shows "contact_loop model d lh lt fl i hc tc found = Inr (hc, tc)"
  using assms
proof (induction model d lh lt fl i hc tc found rule: contact_loop.induct)
  case (1 model d lh lt fl i hc tc found)
  show ?case
  proof (cases "i < ncon d")
    case False
    then show ?thesis by simp
  next
    case True
    with "1.prems" have r: "rd (contact d) i = Inr (contact d ! nat i)"
      by (simp add: rd_def)
    from "1.prems"(3) [of i] True obtain n1 n2 where
      n: "mj_id2name model mjOBJ_XBODY (geom1 (contact d ! nat i)) = Some n1"
         "mj_id2name model mjOBJ_XBODY (geom2 (contact d ! nat i)) = Some n2"
      and no: "\<not> (geom1 (contact d ! nat i) = lh \<and> geom2 (contact d ! nat i) = fl)"
         "\<not> (geom2 (contact d ! nat i) = lh \<and> geom1 (contact d ! nat i) = fl)"
         "\<not> (geom1 (contact d ! nat i) = lt \<and> geom2 (contact d ! nat i) = fl)"
         "\<not> (geom2 (contact d ! nat i) = lt \<and> geom1 (contact d ! nat i) = fl)"
      by auto
    have h: "\<not> ((geom1 (contact d ! nat i) = lh \<and> geom2 (contact d ! nat i) = fl) \<or>
                (geom2 (contact d ! nat i) = lh \<and> geom1 (contact d ! nat i) = fl))"
      "\<not> ((geom1 (contact d ! nat i) = lt \<and> geom2 (contact d ! nat i) = fl) \<or>
                (geom2 (contact d ! nat i) = lt \<and> geom1 (contact d ! nat i) = fl))"
      using no by blast+
    show ?thesis
    proof (cases "found = 2")
      case True
      with \<open>i < ncon d\<close> r n show ?thesis
        by (subst contact_loop.simps) (simp add: h del: contact_loop.simps)
    next
      case False
      have "contact_loop model d lh lt fl (i + 1) hc tc found = Inr (hc, tc)"
      proof (rule "1.IH"(3) [OF \<open>i < ncon d\<close> r n(1) n(2) h False])
        show "0 \<le> i + 1" using "1.prems"(1) by simp
        show "ncon d \<le> int (length (contact d))" by (rule "1.prems"(2))
        show "\<And>k. i + 1 \<le> k \<Longrightarrow> k < ncon d \<Longrightarrow>
           mj_id2name model mjOBJ_XBODY (geom1 (contact d ! nat k)) \<noteq> None \<and>
           mj_id2name model mjOBJ_XBODY (geom2 (contact d ! nat k)) \<noteq> None \<and>
           \<not> (geom1 (contact d ! nat k) = lh \<and> geom2 (contact d ! nat k) = fl) \<and>
           \<not> (geom2 (contact d ! nat k) = lh \<and> geom1 (contact d ! nat k) = fl) \<and>
           \<not> (geom1 (contact d ! nat k) = lt \<and> geom2 (contact d ! nat k) = fl) \<and>
           \<not> (geom2 (contact d ! nat k) = lt \<and> geom1 (contact d ! nat k) = fl)"
          using "1.prems"(3) by simp
      qed
      with \<open>i < ncon d\<close> r n False show ?thesis
        by (subst contact_loop.simps) (simp add: h del: contact_loop.simps)
    qed
  qed
qed


lemma force_abs_sum_no_left_foot:
  assumes "ncon d \<le> int (length (contact d))"
    and "\<And>k. 0 \<le> k \<Longrightarrow> k < ncon d \<Longrightarrow>
           mj_id2name model mjOBJ_XBODY (geom1 (contact d ! nat k)) \<noteq> None \<and>
           mj_id2name model mjOBJ_XBODY (geom2 (contact d ! nat k)) \<noteq> None \<and>
           \<not> (geom1 (contact d ! nat k) = mj_name2id model mjOBJ_GEOM ''foot1_left'' \<and>
              geom2 (contact d ! nat k) = mj_name2id model mjOBJ_GEOM ''floor'') \<and>
           \<not> (geom2 (contact d ! nat k) = mj_name2id model mjOBJ_GEOM ''foot1_left'' \<and>
              geom1 (contact d ! nat k) = mj_name2id model mjOBJ_GEOM ''floor'') \<and>
           \<not> (geom1 (contact d ! nat k) = mj_name2id model mjOBJ_GEOM ''foot2_left'' \<and>
              geom2 (contact d ! nat k) = mj_name2id model mjOBJ_GEOM ''floor'') \<and>
           \<not> (geom2 (contact d ! nat k) = mj_name2id model mjOBJ_GEOM ''foot2_left'' \<and>
              geom1 (contact d ! nat k) = mj_name2id model mjOBJ_GEOM ''floor'')"
  shows "force_abs_sum model d = Inr 0"
proof -
  have "contact_loop model d (mj_name2id model mjOBJ_GEOM ''foot1_left'')
          (mj_name2id model mjOBJ_GEOM ''foot2_left'') (mj_name2id model mjOBJ_GEOM ''floor'')
          0 (- 1) (- 1) 0 = Inr (- 1, - 1)"
    by (rule contact_loop_no_left_foot) (simp_all add: assms)
  then show ?thesis
    by (simp add: force_abs_sum_def Let_def mj_contactForce_sentinel mju_add3_def
        eval_nat_numeral)
qed

lemma ex_ltoe: "ltoe_marker_height ex_model ex_data_foot = Inr 0"
proof -
  have i: "mj_name2id ex_model mjOBJ_BODY ''mocap[ltoe]'' = 4"
    by (rule ex_body_ids)
  have m: "body_mocapid ex_model = [- 1, - 1, 0, 1, 2, 3, 4, 5, 6, 7, 8, 9, 10, 11, 12, 13, 14, 15, 16]"
    by (simp add: ex_model_def)
  have d: "mocap_pos ex_data_foot = replicate 48 0 @ [3 / 10, 0, 0]"
    by (simp add: ex_data_foot_def ex_data_def)
  show ?thesis
    unfolding ltoe_marker_height_def Let_def i m d by (simp add: rd_def nth_append)
qed

lemma ex_force: "force_abs_sum ex_model ex_data_foot = Inr 500"
proof -
  have d: "ncon ex_data_foot = 1"
    "contact ex_data_foot = [\<lparr> geom1 = 0, geom2 = 1, efc_address = 0,
                           decoded_force = [300, 120, - 80, 0, 0, 0] \<rparr>]"
    by (simp_all add: ex_data_foot_def)
  have l: "contact_loop ex_model ex_data_foot 1 2 0 0 (- 1) (- 1) 0 = Inr (- 1, 0)"
    by (subst contact_loop.simps, simp add: d rd_def ex_body_names)+
  show ?thesis
    unfolding force_abs_sum_def Let_def ex_geom_ids l
    by (simp add: mj_contactForce_def d rd_def mju_add3_def)
qed

lemma ex_ltoe_lifted: "ltoe_marker_height ex_model ex_data_lifted = Inr (1 / 5)"
proof -
  have d: "mocap_pos ex_data_lifted = replicate 8 0 @ [1 / 5] @ replicate 39 0 @ [3 / 10, 0, 0]"
    by (simp add: ex_data_lifted_def)
  show ?thesis
    unfolding ltoe_marker_height_def Let_def ex_body_ids ex_model_fields d
    by (simp add: rd_def nth_append)
qed

lemma ex_force_lifted: "force_abs_sum ex_model ex_data_lifted = Inr 0"
  by (rule force_abs_sum_no_contacts) (simp add: ex_data_lifted_def ex_data_def)

text \<open>
  C4. Whenever \<open>ComputeFootContactForceResidual\<close> returns, its one scalar lies in
  \<open>[0, 1]\<close>; it is 0 when the z coordinate of the left-toe marker in \<open>mocap_pos\<close>
  exceeds 0.05, and otherwise it is the logistic value \<open>1 / (1 + exp ((F - 500) / 80))\<close>
  of the sum \<open>F\<close> of the absolute values of the first three components of the summed
  left-foot contact forces.
\<close>

theorem ComputeFootContactForceResidual_range:
  assumes "ComputeFootContactForceResidual model d = Inr r"
  shows "\<exists>F z. force_abs_sum model d = Inr F \<and> ltoe_marker_height model d = Inr z \<and>
           r = [if z \<le> 0.05 then 1 / (1 + exp ((F - 500.0) / 80.0)) else 0] \<and>
           0 \<le> r ! 0 \<and> r ! 0 \<le> 1"
proof -
  from assms obtain F z where F: "force_abs_sum model d = Inr F"
    and z: "ltoe_marker_height model d = Inr z"
    and r: "r = [1 / (1 + exp ((F - 500) / 80)) * (if z \<le> 0.05 then 1 else 0)]"
    unfolding ComputeFootContactForceResidual_def Let_def by (auto simp: bnd_eq_Inr)
  from logistic_range [of "(F - 500) / 80"] have "0 \<le> r ! 0 \<and> r ! 0 \<le> 1"
    by (simp add: r)
  then show ?thesis using F z r by auto
qed

theorem ComputeFootContactForceResidual_range_witness:
  "ComputeFootContactForceResidual ex_model ex_data_foot = Inr [1 / 2] \<and>
   force_abs_sum ex_model ex_data_foot = Inr 500 \<and>
   ltoe_marker_height ex_model ex_data_foot = Inr 0 \<and>
   (0::real) \<le> [1 / 2] ! 0 \<and> [1 / 2 :: real] ! 0 \<le> 1 \<and>
   ComputeFootContactForceResidual ex_model ex_data_lifted = Inr [0] \<and>
   ltoe_marker_height ex_model ex_data_lifted = Inr (1 / 5)"
proof -
  have e: "ComputeFootContactForceResidual ex_model ex_data_foot = Inr [1 / 2]"
    by (simp add: ComputeFootContactForceResidual_def ex_force ex_ltoe)
  have l: "ComputeFootContactForceResidual ex_model ex_data_lifted = Inr [0]"
    by (simp add: ComputeFootContactForceResidual_def ex_force_lifted ex_ltoe_lifted)
  show ?thesis
    using ComputeFootContactForceResidual_range [OF e]
      ComputeFootContactForceResidual_range [OF l] e l ex_force ex_ltoe ex_ltoe_lifted
    by simp
qed

text \<open>
  C6. With a wheel of the board on the floor and no contact of the left foot, the loop
  over the contacts asks \<open>mj_id2name\<close> for the name of body 21, which the model does not
  have, and builds a \<^verbatim>\<open>std::string\<close> from the null pointer: the computation does not
  complete. (The \<open>-1\<close> sentinel itself is harmless: \<open>mj_contactForce_sentinel\<close>.)
\<close>

theorem ComputeFootContactForceResidual_wheel_contact:
  "ComputeFootContactForceResidual ex_model ex_data_wheel = Inl Fault"
proof -
  have d: "ncon ex_data_wheel = 1"
    "contact ex_data_wheel = [\<lparr> geom1 = 0, geom2 = 21, efc_address = 0,
                           decoded_force = [200, 0, 0, 0, 0, 0] \<rparr>]"
    by (simp_all add: ex_data_wheel_def)
  have "contact_loop ex_model ex_data_wheel 1 2 0 0 (- 1) (- 1) 0 = Inl Fault"
    by (subst contact_loop.simps) (simp add: d rd_def ex_body_names)
  then show ?thesis
    by (simp add: ComputeFootContactForceResidual_def force_abs_sum_def ex_geom_ids)
qed

section \<open>The board velocity residual\<close>

lemma ComputeBoardVelocityResidual_value:
  assumes "ComputeBoardVelocityResidual rf model d = Inr r"
  shows "\<exists>i velocity adr global X.
           ParameterIndex model ''Velocity'' = Inr i \<and>
           rd (parameters_m rf) i = Inr velocity \<and>
           SensorByName model d ''skateboard_framelinvel'' = Inr adr \<and>
           rdn (sensordata d) adr 3 = Inr global \<and>
           rdn (xmat d) (9 * skateboard_body_id_m rf) 9 = Inr X \<and>
           r = [velocity - mju_rotVecMatT global X ! 0 - 0.03,
                0 - mju_rotVecMatT global X ! 1,
                0 - global ! 2]"
  using assms unfolding ComputeBoardVelocityResidual_def Let_def
  by (auto simp: bnd_eq_Inr)

text \<open>
  C5. On a board pitched about its y axis and moving horizontally, the third component
  that \<open>ComputeBoardVelocityResidual\<close> returns is 0 minus the vertical velocity in the
  world frame, not in the frame of the board as the first two components are: it
  differs from the residual in the words of the specification.
\<close>

theorem ComputeBoardVelocityResidual_pitched:
  "ComputeBoardVelocityResidual ex_residual ex_model ex_data_pitched = Inr [17 / 100, 0, 0] \<and>
   BoardVelocityResidual_spec 1 [1, 0, 0] [4 / 5, 0, 3 / 5, 0, 1, 0, - 3 / 5, 0, 4 / 5] =
     [17 / 100, 0, - 3 / 5]"
proof -
  have s: "sensordata ex_data_pitched = replicate 87 0 @ [1, 0, 0] @ replicate 3 0"
    by (simp add: ex_data_pitched_def)
  have x: "rdn (xmat ex_data_pitched) 9 9 = Inr [4 / 5, 0, 3 / 5, 0, 1, 0, - 3 / 5, 0, 4 / 5]"
    by (simp add: ex_data_pitched_def rdn_def)
  have r: "parameters_m ex_residual = [0, 0, 0, 0, 0, 0, 0, 0, 0, 1]"
    "skateboard_body_id_m ex_residual = 1"
    by (simp_all add: ex_residual_def)
  have "ComputeBoardVelocityResidual ex_residual ex_model ex_data_pitched = Inr [17 / 100, 0, 0]"
    unfolding ComputeBoardVelocityResidual_def Let_def ex_sensor_framelinvel ex_param s r
    by (simp add: rd_def rdn_def [of "_ @ _"] x mju_rotVecMatT_def)
  moreover have "BoardVelocityResidual_spec 1 [1, 0, 0] [4 / 5, 0, 3 / 5, 0, 1, 0, - 3 / 5, 0, 4 / 5] =
     [17 / 100, 0, - 3 / 5]"
    by (simp add: BoardVelocityResidual_spec_def mju_rotVecMatT_def)
  ultimately show ?thesis by simp
qed

section \<open>The reference frame synthesizer\<close>

lemma fold_length_preserved:
  assumes "\<And>i mp. length (k i mp) = length mp"
  shows "length (fold k xs mp) = length mp"
  using assms by (induction xs arbitrary: mp) simp_all

lemma length_translate_markers [simp]:
  "length (snd (snd (translate_markers n c mp))) = length mp"
proof -
  have "length (snd (snd (fold (\<lambda>i (a0, a1, mp).
             (a0 + mp ! (3 * i + 0), a1 + mp ! (3 * i + 1),
              mp[3 * i + 0 := mp ! (3 * i + 0) + c ! 0,
                 3 * i + 1 := mp ! (3 * i + 1) + c ! 1,
                 3 * i + 2 := mp ! (3 * i + 2) + (c ! 2 - 0.1)])) xs s))) = length (snd (snd s))"
    for xs s
    by (induction xs arbitrary: s) (simp_all add: split_beta)
  then show ?thesis by (simp add: translate_markers_def)
qed

lemma length_center_markers [simp]: "length (center_markers n a0 a1 mp) = length mp"
  unfolding center_markers_def by (rule fold_length_preserved) simp

lemma length_shift_markers [simp]: "length (shift_markers n mp) = length mp"
  unfolding shift_markers_def by (rule fold_length_preserved) simp

lemma length_rotate_markers [simp]: "length (rotate_markers n c t h mp) = length mp"
  unfolding rotate_markers_def by (rule fold_length_preserved) (simp add: Let_def)

lemma upper_body_loop_length:
  "upper_body_loop model a osc off xs mp = Inr mp' \<Longrightarrow> length mp' = length mp"
proof (induction xs arbitrary: mp)
  case Nil
  then show ?case by simp
next
  case (Cons x xs)
  obtain name sy sz where x: "x = (name, sy, sz)" by (cases x)
  from Cons.prems obtain mp2 where "upper_body_loop model a osc off xs mp2 = Inr mp'"
    and "length mp2 = length mp"
    unfolding x by (auto simp: Let_def upd_def split: sum.splits if_splits)
  with Cons.IH show ?case by simp
qed

lemma ex_move_mocap_poses:
  assumes "xpos d = replicate 57 0" and "xmat d = ex_xmat"
    and "length (mocap_pos d) = 51" and "length ps = 10"
  shows "\<exists>r. move_mocap_poses ex_model d ps 0 = Inr r \<and> length r = 48"
  unfolding move_mocap_poses_def Let_def ex_param ex_body_ids ex_model_fields assms(1,2) parameter_value_def
  apply (simp add: rdn_def [of "replicate _ _"] split_beta)
  apply (simp add: rd_def assms upd_def upper_body_names_def upper_body_scale_y_def upper_body_scale_z_def ex_body_ids ex_model_fields rdn_def [of "replicate _ _"] ex_xmat_skateboard)
  done

text \<open>
  C7. \<open>move_mocap_poses\<close> is a function of the model, the parameters, the mode and four
  fields of the data: two calls on data with the same simulation time, the same body
  positions \<open>xpos\<close>, the same body orientations \<open>xmat\<close> and the same \<open>mocap_pos\<close> (which
  holds the goal position) give the same marker positions, or fail alike, whatever else
  differs in the data. It takes no random draw and reads nothing else.
\<close>

theorem move_mocap_poses_deterministic:
  assumes "time d1 = time d2" and "xpos d1 = xpos d2" and "xmat d1 = xmat d2"
    and "mocap_pos d1 = mocap_pos d2"
  shows "move_mocap_poses model d1 ps motion_mode = move_mocap_poses model d2 ps motion_mode"
  unfolding move_mocap_poses_def by (simp only: assms)

theorem move_mocap_poses_deterministic_witness:
  "time ex_data = time ex_data_foot \<and> xpos ex_data = xpos ex_data_foot \<and>
   xmat ex_data = xmat ex_data_foot \<and> mocap_pos ex_data = mocap_pos ex_data_foot \<and>
   ncon ex_data \<noteq> ncon ex_data_foot \<and>
   move_mocap_poses ex_model ex_data (parameters_m ex_residual) 0 =
     move_mocap_poses ex_model ex_data_foot (parameters_m ex_residual) 0 \<and>
   (\<exists>r. move_mocap_poses ex_model ex_data (parameters_m ex_residual) 0 = Inr r)"
proof -
  have e: "time ex_data = time ex_data_foot" "xpos ex_data = xpos ex_data_foot"
    "xmat ex_data = xmat ex_data_foot" "mocap_pos ex_data = mocap_pos ex_data_foot"
    "ncon ex_data \<noteq> ncon ex_data_foot"
    by (simp_all add: ex_data_foot_def ex_data_def)
  have "\<exists>r. move_mocap_poses ex_model ex_data (parameters_m ex_residual) 0 = Inr r"
    using ex_move_mocap_poses [of ex_data "parameters_m ex_residual"]
    by (auto simp: ex_data_fields ex_residual_fields)
  then show ?thesis
    using move_mocap_poses_deterministic [OF e(1-4), of ex_model "parameters_m ex_residual" 0] e
    by simp
qed

section \<open>The assembled residual\<close>

lemma map_res_length: "map_res f xs = Inr ys \<Longrightarrow> length ys = length xs"
  by (induction xs arbitrary: ys) (auto split: sum.splits)

lemma map_res_set:
  "map_res f xs = Inr ys \<Longrightarrow> y \<in> set ys \<Longrightarrow> \<exists>x\<in>set xs. f x = Inr y"
  by (induction xs arbitrary: ys) (auto split: sum.splits)

lemma map_res_ok:
  "(\<And>x. x \<in> set xs \<Longrightarrow> \<exists>y. f x = Inr y) \<Longrightarrow> \<exists>ys. map_res f xs = Inr ys"
  by (induction xs) (fastforce split: sum.splits)+

lemma average_loop_ok:
  "(\<And>x. x \<in> set xs \<Longrightarrow> \<exists>y. mpos x = Inr y) \<Longrightarrow>
   (\<And>x. x \<in> set xs \<Longrightarrow> \<exists>y. sp x = Inr y) \<Longrightarrow>
   \<exists>r. average_loop mpos sp xs a b = Inr r"
proof (induction xs arbitrary: a b)
  case Nil
  then show ?case by simp
next
  case (Cons x xs)
  from Cons.prems(1) [of x] obtain y where y: "mpos x = Inr y" by auto
  from Cons.prems(2) [of x] obtain z where z: "sp x = Inr z" by auto
  have "\<exists>r. average_loop mpos sp xs (mju_add3 a y) (mju_add3 b z) = Inr r"
    by (rule Cons.IH) (simp_all add: Cons.prems)
  then show ?case by (simp add: y z)
qed

lemma length_concat_3:
  "(\<And>y. y \<in> set ys \<Longrightarrow> length y = 3) \<Longrightarrow> length (concat ys) = 3 * length ys"
  by (induction ys) simp_all

lemma position_residual_length:
  "position_residual mpos sp a b name = Inr v \<Longrightarrow> length v = 3"
  by (auto simp: position_residual_def Let_def bnd_eq_Inr)

lemma velocity_residual_length:
  "velocity_residual model d k0 k1 name = Inr v \<Longrightarrow> length v = 3"
  by (auto simp: velocity_residual_def Let_def bnd_eq_Inr)

lemma ComputeTrackingResidual_length:
  assumes "ComputeTrackingResidual rf model d = Inr t"
  shows "length t = 69"
proof -
  have "\<exists>f g a b k0 k1 positions velocities x y z.
          map_res (position_residual f g a b) track_body_names = Inr positions \<and>
          map_res (velocity_residual model d k0 k1) track_body_names = Inr velocities \<and>
          t = [x, y, z] @ concat positions @ concat velocities"
    using assms unfolding ComputeTrackingResidual_def Let_def
    apply (clarsimp simp: bnd_eq_Inr split_beta)
    apply (intro exI conjI)
      apply assumption
     apply assumption
    apply (rule refl)
    done
  then obtain f g a b k0 k1 positions velocities where
    p: "map_res (position_residual f g a b) track_body_names = Inr positions"
    and v': "map_res (velocity_residual model d k0 k1) track_body_names = Inr velocities"
    and t: "\<exists>x y z. t = [x, y, z] @ concat positions @ concat velocities"
    by blast
  have lp: "length (concat positions) = 3 * length positions"
    using map_res_set [OF p] position_residual_length by (intro length_concat_3) blast
  have lv: "length (concat velocities) = 3 * length velocities"
    using map_res_set [OF v'] velocity_residual_length by (intro length_concat_3) blast
  have "length positions = 11" "length velocities = 11"
    using map_res_length [OF p] map_res_length [OF v'] by (simp_all add: track_body_names_def)
  with t lp lv show ?thesis by auto
qed

lemma wrn_append_prefix:
  assumes "wrn xs (int (length pre)) src = Inr ys" and "take (length pre) xs = pre"
  shows "take (length pre + length src) ys = pre @ src"
    and "drop (length pre + length src) ys = drop (length pre + length src) xs"
    and "length ys = length xs"
proof -
  have le: "length pre \<le> length xs"
    using assms(2) by (metis length_take min.cobounded1)
  show "take (length pre + length src) ys = pre @ src"
    using assms le by (auto simp: wrn_def split: if_splits)
  show "drop (length pre + length src) ys = drop (length pre + length src) xs"
    using assms le by (auto simp: wrn_def split: if_splits)
  show "length ys = length xs"
    using assms le by (auto simp: wrn_def split: if_splits)
qed

lemma wrn_nonempty_offset:
  "wrn xs off src = Inr ys \<Longrightarrow> src \<noteq> [] \<Longrightarrow> 0 \<le> off"
  by (auto simp: wrn_def split: if_splits)

lemma block_lengths:
  "ComputeFootPositionsResidual model d = Inr a \<Longrightarrow> length a = 6"
  "ComputeBoardHeadingResidual rf model d = Inr b \<Longrightarrow> length b = 2"
  "ComputeBoardVelocityResidual rf model d = Inr c \<Longrightarrow> length c = 3"
  "ComputeFootContactForceResidual model d = Inr e \<Longrightarrow> length e = 1"
  "ComputeComVelXyResidual model d = Inr f \<Longrightarrow> length f = 2"
  by (auto simp: ComputeFootPositionsResidual_def ComputeBoardHeadingResidual_def
      ComputeBoardVelocityResidual_def ComputeFootContactForceResidual_def
      ComputeComVelXyResidual_def Let_def bnd_eq_Inr)

lemma Residual_Inr:
  assumes "Residual rf model d residual = Inr r"
  shows "\<exists>b1 b2 b3 b4 b5 b6 b7 b8 r1 r2 r3 r4 r5 r6 r7.
    rdn (qvel d) 6 (nv model - 19) = Inr b1 \<and> wrn residual 0 b1 = Inr r1 \<and>
    rdn (ctrl d) 0 (nu model) = Inr b2 \<and> wrn r1 (nv model - 19) b2 = Inr r2 \<and>
    ComputeTrackingResidual rf model d = Inr b3 \<and>
    wrn r2 (nv model - 19 + nu model) b3 = Inr r3 \<and>
    ComputeFootPositionsResidual model d = Inr b4 \<and>
    wrn r3 (nv model - 19 + nu model + int (length b3)) b4 = Inr r4 \<and>
    ComputeBoardHeadingResidual rf model d = Inr b5 \<and>
    wrn r4 (nv model - 19 + nu model + int (length b3) + int (length b4)) b5 = Inr r5 \<and>
    ComputeBoardVelocityResidual rf model d = Inr b6 \<and>
    wrn r5 (nv model - 19 + nu model + int (length b3) + int (length b4) + int (length b5)) b6
      = Inr r6 \<and>
    ComputeFootContactForceResidual model d = Inr b7 \<and>
    wrn r6 (nv model - 19 + nu model + int (length b3) + int (length b4) + int (length b5)
            + int (length b6)) b7 = Inr r7 \<and>
    ComputeComVelXyResidual model d = Inr b8 \<and>
    wrn r7 (nv model - 19 + nu model + int (length b3) + int (length b4) + int (length b5)
            + int (length b6) + int (length b7)) b8 = Inr r \<and>
    user_sensor_dim model =
      nv model - 19 + nu model + int (length b3) + int (length b4) + int (length b5)
        + int (length b6) + int (length b7) + int (length b8)"
  using assms unfolding Residual_def Let_def mju_copy_def CheckSensorDim_def
  by (simp add: bnd_eq_Inr split: if_splits)

text \<open>
  C1. Whenever \<open>Residual\<close> returns, for a model with \<open>nu \<ge> 0\<close>, the array it was given
  holds, from offset 0 and in this order: the \<open>nv - 19\<close> joint velocities \<open>qvel[6 ...]\<close>,
  the \<open>nu\<close> controls, the tracking residual (69 numbers), the foot placement residual (6),
  the board heading residual (2), the board velocity residual (3), the foot contact-force
  residual (1) and the planar velocity residual of the centre of mass (2). The rest of
  the array is untouched. The number of scalars written, \<open>(nv - 19) + nu + 83\<close>, depends
  on the model only, and it equals the declared sensor dimension, which
  \<open>CheckSensorDim\<close> compares with the counter at the end of each evaluation.
\<close>

theorem Residual_layout:
  assumes "Residual rf model d residual = Inr r" and "0 \<le> nu model"
  shows "\<exists>joints controls tracking feet heading velocity force com.
     19 \<le> nv model \<and>
     rdn (qvel d) 6 (nv model - 19) = Inr joints \<and> length joints = nat (nv model - 19) \<and>
     rdn (ctrl d) 0 (nu model) = Inr controls \<and> length controls = nat (nu model) \<and>
     ComputeTrackingResidual rf model d = Inr tracking \<and> length tracking = 3 + 11 * 3 + 11 * 3 \<and>
     ComputeFootPositionsResidual model d = Inr feet \<and> length feet = 6 \<and>
     ComputeBoardHeadingResidual rf model d = Inr heading \<and> length heading = 2 \<and>
     ComputeBoardVelocityResidual rf model d = Inr velocity \<and> length velocity = 3 \<and>
     ComputeFootContactForceResidual model d = Inr force \<and> length force = 1 \<and>
     ComputeComVelXyResidual model d = Inr com \<and> length com = 2 \<and>
     take (nat (nv model - 19 + nu model + 83)) r =
       joints @ controls @ tracking @ feet @ heading @ velocity @ force @ com \<and>
     drop (nat (nv model - 19 + nu model + 83)) r =
       drop (nat (nv model - 19 + nu model + 83)) residual \<and>
     length r = length residual \<and>
     user_sensor_dim model = nv model - 19 + nu model + 83"
proof -
  let ?n = "nv model - 19"
  from Residual_Inr [OF assms(1)] obtain b1 b2 b3 b4 b5 b6 b7 b8 r1 r2 r3 r4 r5 r6 r7 where
    b1: "rdn (qvel d) 6 ?n = Inr b1" and w1: "wrn residual 0 b1 = Inr r1"
    and b2: "rdn (ctrl d) 0 (nu model) = Inr b2" and w2: "wrn r1 ?n b2 = Inr r2"
    and b3: "ComputeTrackingResidual rf model d = Inr b3"
    and w3: "wrn r2 (?n + nu model) b3 = Inr r3"
    and b4: "ComputeFootPositionsResidual model d = Inr b4"
    and w4: "wrn r3 (?n + nu model + int (length b3)) b4 = Inr r4"
    and b5: "ComputeBoardHeadingResidual rf model d = Inr b5"
    and w5: "wrn r4 (?n + nu model + int (length b3) + int (length b4)) b5 = Inr r5"
    and b6: "ComputeBoardVelocityResidual rf model d = Inr b6"
    and w6: "wrn r5 (?n + nu model + int (length b3) + int (length b4) + int (length b5)) b6
               = Inr r6"
    and b7: "ComputeFootContactForceResidual model d = Inr b7"
    and w7: "wrn r6 (?n + nu model + int (length b3) + int (length b4) + int (length b5)
               + int (length b6)) b7 = Inr r7"
    and b8: "ComputeComVelXyResidual model d = Inr b8"
    and w8: "wrn r7 (?n + nu model + int (length b3) + int (length b4) + int (length b5)
               + int (length b6) + int (length b7)) b8 = Inr r"
    and dim: "user_sensor_dim model =
               ?n + nu model + int (length b3) + int (length b4) + int (length b5)
                 + int (length b6) + int (length b7) + int (length b8)"
    by blast
  have l1: "length b1 = nat ?n" and l2: "length b2 = nat (nu model)"
    using rdn_length [OF b1] rdn_length [OF b2] by simp_all
  have l3: "length b3 = 69" by (rule ComputeTrackingResidual_length [OF b3])
  note l4 = block_lengths(1) [OF b4] and l5 = block_lengths(2) [OF b5]
    and l6 = block_lengths(3) [OF b6] and l7 = block_lengths(4) [OF b7]
    and l8 = block_lengths(5) [OF b8]
  have n0: "0 \<le> ?n"
  proof (cases "nu model = 0")
    case True
    from l3 have "b3 \<noteq> []" by auto
    from wrn_nonempty_offset [OF w3 this] True show ?thesis by simp
  next
    case False
    with assms(2) l2 have "b2 \<noteq> []" by auto
    from wrn_nonempty_offset [OF w2 this] show ?thesis .
  qed
  have o1: "?n = int (length b1)" using n0 l1 by simp
  have o2: "?n + nu model = int (length (b1 @ b2))" using n0 assms(2) l1 l2 by simp
  have o3: "?n + nu model + int (length b3) = int (length (b1 @ b2 @ b3))"
    using o2 by simp
  have o4: "?n + nu model + int (length b3) + int (length b4) = int (length (b1 @ b2 @ b3 @ b4))"
    using o2 by simp
  have o5: "?n + nu model + int (length b3) + int (length b4) + int (length b5)
              = int (length (b1 @ b2 @ b3 @ b4 @ b5))"
    using o2 by simp
  have o6: "?n + nu model + int (length b3) + int (length b4) + int (length b5)
              + int (length b6) = int (length (b1 @ b2 @ b3 @ b4 @ b5 @ b6))"
    using o2 by simp
  have o7: "?n + nu model + int (length b3) + int (length b4) + int (length b5)
              + int (length b6) + int (length b7) = int (length (b1 @ b2 @ b3 @ b4 @ b5 @ b6 @ b7))"
    using o2 by simp
  have s1: "take (length b1) r1 = b1" "drop (length b1) r1 = drop (length b1) residual"
    "length r1 = length residual"
    using wrn_append_prefix [of residual "[]" b1 r1] w1 by simp_all
  have s2: "take (length (b1 @ b2)) r2 = b1 @ b2"
    "drop (length (b1 @ b2)) r2 = drop (length (b1 @ b2)) r1" "length r2 = length r1"
    using wrn_append_prefix [of r1 b1 b2 r2] w2 s1(1) unfolding o1 by simp_all
  have s3: "take (length (b1 @ b2 @ b3)) r3 = b1 @ b2 @ b3"
    "drop (length (b1 @ b2 @ b3)) r3 = drop (length (b1 @ b2 @ b3)) r2" "length r3 = length r2"
    using wrn_append_prefix [of r2 "b1 @ b2" b3 r3] w3 s2(1) unfolding o2 by (simp_all add: add.assoc)
  have s4: "take (length (b1 @ b2 @ b3 @ b4)) r4 = b1 @ b2 @ b3 @ b4"
    "drop (length (b1 @ b2 @ b3 @ b4)) r4 = drop (length (b1 @ b2 @ b3 @ b4)) r3"
    "length r4 = length r3"
    using wrn_append_prefix [of r3 "b1 @ b2 @ b3" b4 r4] w4 s3(1) unfolding o3
    by (simp_all add: add.assoc)
  have s5: "take (length (b1 @ b2 @ b3 @ b4 @ b5)) r5 = b1 @ b2 @ b3 @ b4 @ b5"
    "drop (length (b1 @ b2 @ b3 @ b4 @ b5)) r5 = drop (length (b1 @ b2 @ b3 @ b4 @ b5)) r4"
    "length r5 = length r4"
    using wrn_append_prefix [of r4 "b1 @ b2 @ b3 @ b4" b5 r5] w5 s4(1) unfolding o4
    by (simp_all add: add.assoc)
  have s6: "take (length (b1 @ b2 @ b3 @ b4 @ b5 @ b6)) r6 = b1 @ b2 @ b3 @ b4 @ b5 @ b6"
    "drop (length (b1 @ b2 @ b3 @ b4 @ b5 @ b6)) r6 = drop (length (b1 @ b2 @ b3 @ b4 @ b5 @ b6)) r5"
    "length r6 = length r5"
    using wrn_append_prefix [of r5 "b1 @ b2 @ b3 @ b4 @ b5" b6 r6] w6 s5(1) unfolding o5
    by (simp_all add: add.assoc)
  have s7: "take (length (b1 @ b2 @ b3 @ b4 @ b5 @ b6 @ b7)) r7 = b1 @ b2 @ b3 @ b4 @ b5 @ b6 @ b7"
    "drop (length (b1 @ b2 @ b3 @ b4 @ b5 @ b6 @ b7)) r7
       = drop (length (b1 @ b2 @ b3 @ b4 @ b5 @ b6 @ b7)) r6"
    "length r7 = length r6"
    using wrn_append_prefix [of r6 "b1 @ b2 @ b3 @ b4 @ b5 @ b6" b7 r7] w7 s6(1) unfolding o6
    by (simp_all add: add.assoc)
  have s8: "take (length (b1 @ b2 @ b3 @ b4 @ b5 @ b6 @ b7 @ b8)) r
              = b1 @ b2 @ b3 @ b4 @ b5 @ b6 @ b7 @ b8"
    "drop (length (b1 @ b2 @ b3 @ b4 @ b5 @ b6 @ b7 @ b8)) r
       = drop (length (b1 @ b2 @ b3 @ b4 @ b5 @ b6 @ b7 @ b8)) r7"
    "length r = length r7"
    using wrn_append_prefix [of r7 "b1 @ b2 @ b3 @ b4 @ b5 @ b6 @ b7" b8 r] w8 s7(1) unfolding o7
    by (simp_all add: add.assoc)
  have total: "nat (?n + nu model + 83) = length (b1 @ b2 @ b3 @ b4 @ b5 @ b6 @ b7 @ b8)"
    using n0 assms(2) l1 l2 l3 l4 l5 l6 l7 l8 by simp
  have chain: "drop (k + m) ys = drop (k + m) zs" if "drop k ys = drop k zs" for k m and ys zs :: "real list"
    using that by (metis add.commute drop_drop)
  have dr: "drop (length (b1 @ b2 @ b3 @ b4 @ b5 @ b6 @ b7 @ b8)) r
              = drop (length (b1 @ b2 @ b3 @ b4 @ b5 @ b6 @ b7 @ b8)) residual"
  proof -
    have d2: "drop (length (b1 @ b2)) r2 = drop (length (b1 @ b2)) residual"
      using s2(2) chain [OF s1(2), of "length b2"] by simp
    have d3: "drop (length (b1 @ b2 @ b3)) r3 = drop (length (b1 @ b2 @ b3)) residual"
      using s3(2) chain [OF d2, of "length b3"] by (simp add: add.assoc)
    have d4: "drop (length (b1 @ b2 @ b3 @ b4)) r4 = drop (length (b1 @ b2 @ b3 @ b4)) residual"
      using s4(2) chain [OF d3, of "length b4"] by (simp add: add.assoc)
    have d5: "drop (length (b1 @ b2 @ b3 @ b4 @ b5)) r5
                = drop (length (b1 @ b2 @ b3 @ b4 @ b5)) residual"
      using s5(2) chain [OF d4, of "length b5"] by (simp add: add.assoc)
    have d6: "drop (length (b1 @ b2 @ b3 @ b4 @ b5 @ b6)) r6
                = drop (length (b1 @ b2 @ b3 @ b4 @ b5 @ b6)) residual"
      using s6(2) chain [OF d5, of "length b6"] by (simp add: add.assoc)
    have d7: "drop (length (b1 @ b2 @ b3 @ b4 @ b5 @ b6 @ b7)) r7
                = drop (length (b1 @ b2 @ b3 @ b4 @ b5 @ b6 @ b7)) residual"
      using s7(2) chain [OF d6, of "length b7"] by (simp add: add.assoc)
    show ?thesis
      using s8(2) chain [OF d7, of "length b8"] by (simp add: add.assoc)
  qed
  have len: "length r = length residual"
    using s1(3) s2(3) s3(3) s4(3) s5(3) s6(3) s7(3) s8(3) by simp
  have dim': "user_sensor_dim model = ?n + nu model + 83"
    using dim l3 l4 l5 l6 l7 l8 by simp
  have n19: "19 \<le> nv model" using n0 by simp
  show ?thesis
    apply (rule exI [of _ b1], rule exI [of _ b2], rule exI [of _ b3], rule exI [of _ b4],
        rule exI [of _ b5], rule exI [of _ b6], rule exI [of _ b7], rule exI [of _ b8])
    using n19 b1 l1 b2 l2 b3 l3 b4 l4 b5 l5 b6 l6 b7 l7 b8 l8 s8(1) dr len dim'
    unfolding total by simp
qed

subsection \<open>The residual of the example state\<close>

lemma ex_mocap_id_of:
  assumes "name \<in> set body_names"
  shows "\<exists>m. mocap_id_of ex_model name = Inr m \<and> 0 \<le> m \<and> m < 16"
  using assms unfolding body_names_def mocap_id_of_def Let_def
  by (auto simp: ex_body_ids ex_model_fields rd_def)

lemma ex_sensor_adr:
  assumes "name \<in> set body_names"
  shows "\<exists>a. SensorByName ex_model d (''tracking_pos['' @ name @ '']'') = Inr a \<and> 0 \<le> a \<and> a + 3 \<le> 93"
  using assms unfolding body_names_def SensorByName_def
  by (auto simp: ex_sensor_adrs)

lemma ex_sensor_linvel_adr:
  assumes "name \<in> set track_body_names"
  shows "\<exists>a. SensorByName ex_model d (''tracking_linvel['' @ name @ '']'') = Inr a \<and> 0 \<le> a \<and> a + 3 \<le> 93"
  using assms unfolding track_body_names_def SensorByName_def
  by (auto simp: ex_sensor_adrs)

lemma track_subset: "set track_body_names \<subseteq> set body_names"
  by (simp add: track_body_names_def body_names_def)

lemma rdn_ok: "0 \<le> off \<Longrightarrow> off + n \<le> int (length xs) \<Longrightarrow> \<exists>v. rdn xs off n = Inr v"
  by (simp add: rdn_def)

lemma ex_get_body_mpos:
  assumes "length r = 48" and "name \<in> set body_names"
  shows "\<exists>v. get_body_mpos ex_model r 0 0 w0 w1 name = Inr v"
proof -
  from ex_mocap_id_of [OF assms(2)] obtain m where
    m: "mocap_id_of ex_model name = Inr m" "0 \<le> m" "m < 16" by blast
  then have "\<exists>v. rdn r (3 * m) 3 = Inr v"
    using assms(1) by (intro rdn_ok) simp_all
  then show ?thesis
    using m by (auto simp: get_body_mpos_def ex_model_fields)
qed

lemma ex_get_body_sensor_pos:
  assumes "length (sensordata d) = 93" and "name \<in> set body_names"
  shows "\<exists>v. get_body_sensor_pos ex_model d name = Inr v"
proof -
  from ex_sensor_adr [OF assms(2), of d] obtain a where
    a: "SensorByName ex_model d (''tracking_pos['' @ name @ '']'') = Inr a" "0 \<le> a" "a + 3 \<le> 93"
    by blast
  then have "\<exists>v. rdn (sensordata d) a 3 = Inr v"
    using assms(1) by (intro rdn_ok) simp_all
  then show ?thesis
    using a by (auto simp: get_body_sensor_pos_def Let_def)
qed

lemma ex_velocity_residual:
  assumes "length (sensordata d) = 93" and "name \<in> set track_body_names"
  shows "\<exists>v. velocity_residual ex_model d 0 0 name = Inr v"
proof -
  from assms(2) track_subset have "name \<in> set body_names" by blast
  from ex_mocap_id_of [OF this] obtain m where
    m: "mocap_id_of ex_model name = Inr m" "0 \<le> m" "m < 16" by blast
  then have k: "\<exists>v. rdn (key_mpos ex_model) (3 * m) 3 = Inr v"
    by (intro rdn_ok) (simp_all add: ex_model_fields)
  from ex_sensor_linvel_adr [OF assms(2), of d] obtain a where
    a: "SensorByName ex_model d (''tracking_linvel['' @ name @ '']'') = Inr a" "0 \<le> a"
      "a + 3 \<le> 93"
    by blast
  then have "\<exists>v. rdn (sensordata d) a 3 = Inr v"
    using assms(1) by (intro rdn_ok) simp_all
  with k show ?thesis
    using a m by (auto simp: velocity_residual_def Let_def ex_model_fields)
qed

lemma ex_tracking:
  assumes "time d = 0" and "xpos d = replicate 57 0" and "xmat d = ex_xmat"
    and "length (mocap_pos d) = 51" and "length (sensordata d) = 93"
  shows "\<exists>t. ComputeTrackingResidual ex_residual ex_model d = Inr t"
proof -
  have rf: "parameters_m ex_residual = [0, 0, 0, 0, 0, 0, 0, 0, 0, 1]"
    "current_mode_m ex_residual = 0" "reference_time_m ex_residual = 0"
    by (simp_all add: ex_residual_def)
  from ex_move_mocap_poses [OF assms(2-4), of "[0, 0, 0, 0, 0, 0, 0, 0, 0, 1]"] obtain r where
    r: "move_mocap_poses ex_model d [0, 0, 0, 0, 0, 0, 0, 0, 0, 1] 0 = Inr r" "length r = 48"
    by auto
  let ?mpos = "get_body_mpos ex_model r 0 0 1 0"
  let ?sp = "get_body_sensor_pos ex_model d"
  obtain a b where avg: "average_loop ?mpos ?sp body_names [0, 0, 0] [0, 0, 0] = Inr (a, b)"
    using average_loop_ok [of body_names ?mpos ?sp "[0, 0, 0]" "[0, 0, 0]"]
      ex_get_body_mpos [OF r(2)] ex_get_body_sensor_pos [OF assms(5)]
    by (metis surj_pair)
  have "\<exists>ps. map_res (position_residual ?mpos ?sp a' b') track_body_names = Inr ps" for a' b'
  proof (rule map_res_ok)
    fix x assume "x \<in> set track_body_names"
    with track_subset have x: "x \<in> set body_names" by blast
    from ex_get_body_mpos [OF r(2) x, of 1 0] ex_get_body_sensor_pos [OF assms(5) x]
    show "\<exists>y. position_residual ?mpos ?sp a' b' x = Inr y"
      by (auto simp: position_residual_def Let_def)
  qed
  then obtain ps where ps: "map_res (position_residual ?mpos ?sp
      (mju_scl3 a (1.0 / real_of_int (int (length body_names))))
      (mju_scl3 b (1.0 / real_of_int (int (length body_names))))) track_body_names = Inr ps"
    by blast
  have "\<exists>vs. map_res (velocity_residual ex_model d 0 0) track_body_names = Inr vs"
    by (rule map_res_ok) (rule ex_velocity_residual [OF assms(5)])
  then obtain vs where vs: "map_res (velocity_residual ex_model d 0 0) track_body_names = Inr vs"
    by blast
  show ?thesis
    unfolding ComputeTrackingResidual_def Let_def rf
    by (simp only: r(1) Motion_zero CIV_zero avg ps vs bnd_Inr prod.case of_int_0 add_0_right
        mult_zero_left diff_0_right add_0 diff_numeral_special) blast
qed

lemma ex_feet: "ComputeFootPositionsResidual ex_model ex_data = Inr [0, 0, 0, 0, 0, 0]"
  unfolding ComputeFootPositionsResidual_def SensorByName_def ex_sensor_adrs ex_data_fields
  by (simp add: rdn_def)

lemma ex_heading: "\<exists>h. ComputeBoardHeadingResidual ex_residual ex_model ex_data = Inr h"
  unfolding ComputeBoardHeadingResidual_def ex_residual_fields ex_data_fields Let_def
  by (simp add: rd_def ex_xmat_entries nth_append)

lemma ex_velocity: "ComputeBoardVelocityResidual ex_residual ex_model ex_data = Inr [97 / 100, 0, 0]"
  unfolding ComputeBoardVelocityResidual_def ex_residual_fields ex_data_fields Let_def
    ex_param SensorByName_def ex_sensor_adrs
  by (simp add: rd_def rdn_def [of "replicate _ _"] ex_xmat_skateboard mju_rotVecMatT_def)

lemma ex_force0: "\<exists>f. ComputeFootContactForceResidual ex_model ex_data = Inr f"
proof -
  have "ltoe_marker_height ex_model ex_data = Inr 0"
    unfolding ltoe_marker_height_def Let_def ex_body_ids ex_model_fields ex_data_fields
    by (simp add: rd_def nth_append)
  then show ?thesis
    by (simp add: ComputeFootContactForceResidual_def force_abs_sum_no_contacts ex_data_fields)
qed

lemma ex_com: "ComputeComVelXyResidual ex_model ex_data = Inr [0, 0]"
  unfolding ComputeComVelXyResidual_def SensorByName_def ex_sensor_adrs ex_data_fields
  by (simp add: rdn_def)

lemma wrn_ok_len:
  "0 \<le> off \<Longrightarrow> off + int (length src) \<le> int (length xs) \<Longrightarrow>
     \<exists>ys. wrn xs off src = Inr ys \<and> length ys = length xs"
  by (auto simp: wrn_def)

lemma mju_copy_ok_len:
  "0 < n \<Longrightarrow> 0 \<le> soff \<Longrightarrow> soff + n \<le> int (length src) \<Longrightarrow>
   0 \<le> doff \<Longrightarrow> doff + n \<le> int (length dst) \<Longrightarrow>
     \<exists>ys. mju_copy dst doff src soff n = Inr ys \<and> length ys = length dst"
  by (auto simp: mju_copy_def rdn_def wrn_def)

lemma ex_Residual: "\<exists>r. Residual ex_residual ex_model ex_data (replicate 90 0) = Inr r"
proof -
  obtain b3 where b3: "ComputeTrackingResidual ex_residual ex_model ex_data = Inr b3"
    using ex_tracking [of ex_data] by (auto simp: ex_data_fields)
  have l3: "length b3 = 69" by (rule ComputeTrackingResidual_length [OF b3])
  obtain b5 where b5: "ComputeBoardHeadingResidual ex_residual ex_model ex_data = Inr b5"
    using ex_heading by blast
  have l5: "length b5 = 2" by (rule block_lengths(2) [OF b5])
  obtain b7 where b7: "ComputeFootContactForceResidual ex_model ex_data = Inr b7"
    using ex_force0 by blast
  have l7: "length b7 = 1" by (rule block_lengths(4) [OF b7])
  have n: "nv ex_model - 6 - 6 - 7 = 2" "nu ex_model = 2"
    by (simp_all add: ex_model_fields)
  obtain r1 where r1: "mju_copy (replicate 90 0) 0 (qvel ex_data) 6 2 = Inr r1" "length r1 = 90"
    using mju_copy_ok_len [of 2 6 "qvel ex_data" 0 "replicate 90 0"]
    by (auto simp: ex_data_fields)
  obtain r2 where r2: "mju_copy r1 2 (ctrl ex_data) 0 2 = Inr r2" "length r2 = 90"
    using mju_copy_ok_len [of 2 0 "ctrl ex_data" 2 r1] r1(2)
    by (auto simp: ex_data_fields)
  obtain r3 where r3: "wrn r2 4 b3 = Inr r3" "length r3 = 90"
    using wrn_ok_len [of 4 b3 r2] r2(2) l3 by auto
  obtain r4 where r4: "wrn r3 73 [0, 0, 0, 0, 0, 0] = Inr r4" "length r4 = 90"
    using wrn_ok_len [of 73 "[0, 0, 0, 0, 0, 0]" r3] r3(2) by auto
  obtain r5 where r5: "wrn r4 79 b5 = Inr r5" "length r5 = 90"
    using wrn_ok_len [of 79 b5 r4] r4(2) l5 by auto
  obtain r6 where r6: "wrn r5 81 [97 / 100, 0, 0] = Inr r6" "length r6 = 90"
    using wrn_ok_len [of 81 "[97 / 100, 0, 0]" r5] r5(2) by auto
  obtain r7 where r7: "wrn r6 84 b7 = Inr r7" "length r7 = 90"
    using wrn_ok_len [of 84 b7 r6] r6(2) l7 by auto
  obtain r8 where r8: "wrn r7 85 [0, 0] = Inr r8" "length r8 = 90"
    using wrn_ok_len [of 85 "[0, 0]" r7] r7(2) by auto
  have "Residual ex_residual ex_model ex_data (replicate 90 0) = Inr r8"
    unfolding Residual_def Let_def n
    by (simp add: r1 r2 b3 l3 ex_feet b5 l5 ex_velocity b7 l7 ex_com
        r3 r4 r5 r6 r7 r8 ex_model_fields CheckSensorDim_def)
  then show ?thesis by blast
qed

theorem Residual_layout_witness:
  "\<exists>r. Residual ex_residual ex_model ex_data (replicate 90 0) = Inr r \<and> 0 \<le> nu ex_model \<and>
       length (take 87 r) = 87 \<and> drop 87 r = replicate 3 0 \<and> user_sensor_dim ex_model = 87"
proof -
  from ex_Residual obtain r where
    r: "Residual ex_residual ex_model ex_data (replicate 90 0) = Inr r" by blast
  have nu: "0 \<le> nu ex_model" by (simp add: ex_model_fields)
  from Residual_layout [OF r nu] show ?thesis
    using r nu by (auto simp: ex_model_fields)
qed

section \<open>The transition controller\<close>

lemma move_goal_keeps:
  assumes "move_goal model d lr = Inr d'"
  shows "qpos d' = qpos d" and "qvel d' = qvel d" and "time d' = time d"
proof -
  from move_goal_facts(2) [OF assms] have "d' = d\<lparr>mocap_pos := mocap_pos d'\<rparr>" .
  then have "qpos d' = qpos (d\<lparr>mocap_pos := mocap_pos d'\<rparr>)"
    "qvel d' = qvel (d\<lparr>mocap_pos := mocap_pos d'\<rparr>)"
    "time d' = time (d\<lparr>mocap_pos := mocap_pos d'\<rparr>)" by simp_all
  then show "qpos d' = qpos d" and "qvel d' = qvel d" and "time d' = time d" by simp_all
qed

lemma TransitionLocked_Inr:
  assumes "TransitionLocked task model d lr = Inr (task', d')"
  shows "\<exists>start len d1 mp.
    0 \<le> skateboard_body_id_m (residual_m task) \<and>
    MotionStartIndex (mode task) = Inr start \<and> MotionLength (mode task) = Inr len \<and>
    motion_switch task model d start = Inr (task', d1) \<and>
    move_goal model (d1\<lparr>mocap_pos := mp\<rparr>) lr = Inr d'"
  using assms unfolding TransitionLocked_def Let_def
  by (auto simp: bnd_eq_Inr split_beta split: if_splits)

lemma motion_switch_reset:
  assumes "motion_switch task model d start = Inr (task', d1)"
    and "current_mode_m (residual_m task) \<noteq> mode task \<or> time d = 0"
  shows "\<exists>qp qv. mju_copy (qpos d) 0 (key_qpos model) (nq model * start) (nq model) = Inr qp \<and>
            mju_copy (qvel d) 0 (key_qvel model) (nv model * start) (nv model) = Inr qv \<and>
            task' = task\<lparr>residual_m := (residual_m task)
                             \<lparr>current_mode_m := mode task, reference_time_m := time d\<rparr>\<rparr> \<and>
            d1 = d\<lparr>qpos := qp, qvel := qv\<rparr>"
  using assms unfolding motion_switch_def by (auto simp: bnd_eq_Inr)

lemma motion_switch_keep:
  assumes "motion_switch task model d start = Inr (task', d1)"
    and "\<not> (current_mode_m (residual_m task) \<noteq> mode task \<or> time d = 0)"
  shows "task' = task \<and> d1 = d"
  using assms unfolding motion_switch_def by auto

lemma mju_copy_whole:
  assumes "mju_copy dst 0 src soff n = Inr ys"
  shows "\<exists>v. rdn src soff n = Inr v \<and> take (length v) ys = v \<and>
             drop (length v) ys = drop (length v) dst \<and> length ys = length dst"
proof -
  from assms obtain v where v: "rdn src soff n = Inr v" and w: "wrn dst 0 v = Inr ys"
    by (auto simp: mju_copy_def bnd_eq_Inr)
  from wrn_append_prefix [of dst "[]" v ys] w
  have "take (length v) ys = v" "drop (length v) ys = drop (length v) dst" "length ys = length dst"
    by simp_all
  with v show ?thesis by blast
qed

lemma ex_task_fields:
  "mode ex_task = 0" "parameters ex_task = [0, 0, 0, 0, 0, 0, 0, 0, 0, 1]"
  "residual_m ex_task = ex_residual"
  by (simp_all add: ex_task_def)

lemma ex_motion_switch:
  assumes "length (qpos d) = 23" and "length (qvel d) = 21"
  shows "\<exists>task' qp qv. motion_switch ex_task ex_model d 0 = Inr (task', d\<lparr>qpos := qp, qvel := qv\<rparr>)"
proof -
  obtain qp where
    qp: "mju_copy (qpos d) 0 (key_qpos ex_model) 0 (nq ex_model) = Inr qp"
    using mju_copy_ok_len [of 23 0 "key_qpos ex_model" 0 "qpos d"] assms
    by (auto simp: ex_model_fields)
  obtain qv where
    qv: "mju_copy (qvel d) 0 (key_qvel ex_model) 0 (nv ex_model) = Inr qv"
    using mju_copy_ok_len [of 21 0 "key_qvel ex_model" 0 "qvel d"] assms
    by (auto simp: ex_model_fields)
  show ?thesis
  proof (cases "current_mode_m (residual_m ex_task) \<noteq> mode ex_task \<or> time d = 0")
    case True
    then show ?thesis
      by (simp add: motion_switch_def qp qv) blast
  next
    case False
    have "d = d\<lparr>qpos := qpos d, qvel := qvel d\<rparr>" by simp
    then have "\<exists>qp qv. d = d\<lparr>qpos := qp, qvel := qv\<rparr>" by blast
    with False show ?thesis
      by (simp add: motion_switch_def)
  qed
qed

lemma ex_TransitionLocked:
  assumes "xpos d = replicate 57 0" and "xmat d = ex_xmat" and "length (mocap_pos d) = 51"
    and "length (qpos d) = 23" and "length (qvel d) = 21"
  shows "\<exists>task' d'. TransitionLocked ex_task ex_model d lr = Inr (task', d')"
proof -
  from ex_motion_switch [OF assms(4,5)] obtain task1 qp qv where
    sw: "motion_switch ex_task ex_model d 0 = Inr (task1, d\<lparr>qpos := qp, qvel := qv\<rparr>)"
    by blast
  let ?d1 = "d\<lparr>qpos := qp, qvel := qv\<rparr>"
  have f: "rdn (replicate 51 0) 0 48 = Inr (replicate 48 (0::real))"
    by (simp add: rdn_def)
  obtain mp0 where mp0: "wrn (mocap_pos ?d1) 0 (mju_scl (replicate 48 0) 1) = Inr mp0"
    "length mp0 = 51"
    using wrn_ok_len [of 0 "mju_scl (replicate 48 0) 1" "mocap_pos ?d1"] assms(3)
    by (auto simp: mju_scl_def)
  obtain mp1 where mp1: "mju_addTo mp0 (mju_scl (replicate 48 0) 0) = Inr mp1" "length mp1 = 51"
    using mp0(2) by (auto simp: mju_addTo_def mju_scl_def)
  let ?d2 = "?d1\<lparr>mocap_pos := mp1\<rparr>"
  obtain res where res: "move_mocap_poses ex_model ?d2 [0, 0, 0, 0, 0, 0, 0, 0, 0, 1] 0 = Inr res"
    "length res = 48"
    using ex_move_mocap_poses [of ?d2 "[0, 0, 0, 0, 0, 0, 0, 0, 0, 1]"] assms mp1(2) by auto
  obtain mp2 where mp2: "wrn mp1 0 res = Inr mp2" "length mp2 = 51"
    using wrn_ok_len [of 0 res mp1] mp1(2) res(2) by auto
  obtain d3 where d3: "move_goal ex_model (?d2\<lparr>mocap_pos := mp2\<rparr>) lr = Inr d3"
    using ex_move_goal_ok [of "?d2\<lparr>mocap_pos := mp2\<rparr>" lr] assms mp2(2) by auto
  have "TransitionLocked ex_task ex_model d lr = Inr (task1, d3)"
    unfolding TransitionLocked_def Let_def ex_task_fields
    using mp0 mp1 mp2 res d3
    by (simp add: ex_residual_fields Motion_zero sw CIV_zero ex_model_fields f)
  then show ?thesis by blast
qed

text \<open>
  C8. Whenever \<open>TransitionLocked\<close> returns: if the requested mode differs from the stored
  mode or the simulation time is exactly 0, then the stored mode is the requested mode,
  the reference time is the simulation time, and \<open>qpos\<close> and \<open>qvel\<close> hold, in their first
  \<open>nq\<close> and \<open>nv\<close> entries, the keyframe at the start index of the mode; otherwise the
  stored mode, the reference time, \<open>qpos\<close> and \<open>qvel\<close> are as before the step. Nothing
  else of the task changes.
\<close>

theorem TransitionLocked_mode_switch:
  assumes "TransitionLocked task model d left_or_right = Inr (task', d')"
  shows "(current_mode_m (residual_m task) \<noteq> mode task \<or> time d = 0 \<longrightarrow>
            current_mode_m (residual_m task') = mode task \<and>
            reference_time_m (residual_m task') = time d \<and>
            (\<exists>start key_q key_v.
               MotionStartIndex (mode task) = Inr start \<and>
               rdn (key_qpos model) (nq model * start) (nq model) = Inr key_q \<and>
               take (length key_q) (qpos d') = key_q \<and>
               drop (length key_q) (qpos d') = drop (length key_q) (qpos d) \<and>
               rdn (key_qvel model) (nv model * start) (nv model) = Inr key_v \<and>
               take (length key_v) (qvel d') = key_v \<and>
               drop (length key_v) (qvel d') = drop (length key_v) (qvel d))) \<and>
         (\<not> (current_mode_m (residual_m task) \<noteq> mode task \<or> time d = 0) \<longrightarrow>
            current_mode_m (residual_m task') = current_mode_m (residual_m task) \<and>
            reference_time_m (residual_m task') = reference_time_m (residual_m task) \<and>
            qpos d' = qpos d \<and> qvel d' = qvel d) \<and>
         task' = task\<lparr>residual_m := (residual_m task)
                    \<lparr>current_mode_m := current_mode_m (residual_m task'),
                     reference_time_m := reference_time_m (residual_m task')\<rparr>\<rparr>"
proof -
  from TransitionLocked_Inr [OF assms] obtain start len d1 mp where
    start: "MotionStartIndex (mode task) = Inr start"
    and sw: "motion_switch task model d start = Inr (task', d1)"
    and mg: "move_goal model (d1\<lparr>mocap_pos := mp\<rparr>) left_or_right = Inr d'"
    by blast
  have q: "qpos d' = qpos d1" "qvel d' = qvel d1"
    using move_goal_keeps(1,2) [OF mg] by simp_all
  show ?thesis
  proof (cases "current_mode_m (residual_m task) \<noteq> mode task \<or> time d = 0")
    case True
    from motion_switch_reset [OF sw True] obtain qp qv where
      qp: "mju_copy (qpos d) 0 (key_qpos model) (nq model * start) (nq model) = Inr qp"
      and qv: "mju_copy (qvel d) 0 (key_qvel model) (nv model * start) (nv model) = Inr qv"
      and t: "task' = task\<lparr>residual_m := (residual_m task)
                             \<lparr>current_mode_m := mode task, reference_time_m := time d\<rparr>\<rparr>"
      and d1: "d1 = d\<lparr>qpos := qp, qvel := qv\<rparr>"
      by blast
    from mju_copy_whole [OF qp] mju_copy_whole [OF qv] q d1 start t True
    show ?thesis by auto
  next
    case False
    from motion_switch_keep [OF sw False] q False show ?thesis by simp
  qed
qed

theorem TransitionLocked_mode_switch_witness:
  "\<exists>task' d' task'' d''.
     TransitionLocked ex_task ex_model ex_data True = Inr (task', d') \<and>
     time ex_data = 0 \<and>
     current_mode_m (residual_m task') = mode ex_task \<and>
     reference_time_m (residual_m task') = time ex_data \<and>
     TransitionLocked ex_task ex_model (ex_data\<lparr>time := 2\<rparr>) True = Inr (task'', d'') \<and>
     current_mode_m (residual_m ex_task) = mode ex_task \<and>
     time (ex_data\<lparr>time := 2\<rparr>) \<noteq> 0 \<and>
     reference_time_m (residual_m task'') = reference_time_m (residual_m ex_task) \<and>
     qpos d'' = qpos (ex_data\<lparr>time := 2\<rparr>)"
proof -
  obtain task' d' where a: "TransitionLocked ex_task ex_model ex_data True = Inr (task', d')"
    using ex_TransitionLocked [of ex_data True] by (auto simp: ex_data_fields)
  obtain task'' d'' where
    b: "TransitionLocked ex_task ex_model (ex_data\<lparr>time := 2\<rparr>) True = Inr (task'', d'')"
    using ex_TransitionLocked [of "ex_data\<lparr>time := 2\<rparr>" True] by (auto simp: ex_data_fields)
  have c: "current_mode_m (residual_m ex_task) = mode ex_task"
    by (simp add: ex_task_fields ex_residual_fields)
  from TransitionLocked_mode_switch [OF a] TransitionLocked_mode_switch [OF b] a b c
  show ?thesis by (auto simp: ex_data_fields)
qed

end
